theory Spec2Isabelle
  imports Complex_Main "HOL-Library.Sublist"
begin

section \<open>Conventions of the embedding\<close>

text \<open>
  The three Python modules \<^verbatim>\<open>models/symptom_analyzer.py\<close>,
  \<^verbatim>\<open>models/image_analyzer.py\<close> and \<^verbatim>\<open>utils/triage_logic.py\<close> are embedded
  function by function, under the names of the source.

  \<^item> A constant string of the program is a \<open>string\<close>. A text that the program receives
    is a list of Unicode code points (\<open>ustring\<close>); \<open>str\<close> turns a constant into a text, and
    the test \<^verbatim>\<open>k in text\<close> is \<open>occurs_in k text\<close>: the constant \<open>k\<close> occurs as a
    contiguous block of the text.
  \<^item> A Python \<^verbatim>\<open>int\<close> is an \<open>int\<close>. A Python \<^verbatim>\<open>float\<close> is the real number that it
    denotes. Comparisons, \<^verbatim>\<open>min\<close> and \<^verbatim>\<open>max\<close> of floats are exact; every arithmetic
    operation on floats is the exact operation followed by \<open>double_of\<close>, the rounding to
    the nearest binary64 number. Infinities and NaN are not modelled.
  \<^item> A \<^verbatim>\<open>datetime.timedelta\<close> is its number of microseconds, an \<open>int\<close>, and every
    operation that builds one checks the range of the type.
  \<^item> A dictionary that is only read is a map; a dictionary that is iterated is the list
    of its items in insertion order.
  \<^item> An exception is a value \<open>Inl e\<close> of a sum type.
\<close>

datatype py_error = KeyError string | ZeroDivisionError | OverflowError

subsection \<open>Floats\<close>

text \<open>The nearest integer, a tie going to the even one.\<close>

definition round_half_even :: "real \<Rightarrow> int" where
  "round_half_even x =
     (let f = \<lfloor>x\<rfloor>; d = x - of_int f
      in if d < 1 / 2 then f
         else if d > 1 / 2 then f + 1
         else if even f then f else f + 1)"

definition pow2 :: "int \<Rightarrow> real" where
  "pow2 p = (if p \<ge> 0 then 2 ^ nat p else 1 / 2 ^ nat (- p))"

text \<open>
  \<open>quantum fuel x 0\<close> is the exponent \<open>p\<close> of the spacing \<open>2 ^ p\<close> of the binary64 numbers
  around \<open>x > 0\<close>: the one with \<open>2 ^ 52 \<le> x / 2 ^ p < 2 ^ 53\<close>, and \<open>- 1074\<close> for the
  subnormal numbers. The search moves the exponent by one in each step, and 2200
  steps reach every exponent of the format.
\<close>

fun quantum :: "nat \<Rightarrow> real \<Rightarrow> int \<Rightarrow> int" where
  "quantum 0 x p = p"
| "quantum (Suc fuel) x p =
     (if x \<ge> 2 ^ 53 then quantum fuel (x / 2) (p + 1)
      else if x < 2 ^ 52 \<and> p > - 1074 then quantum fuel (x * 2) (p - 1)
      else p)"

text \<open>
  \<open>double_of x\<close> is the binary64 number nearest to \<open>x\<close>, a tie going to the even
  significand, for \<open>x\<close> below the overflow threshold of the format.
\<close>

definition double_of :: "real \<Rightarrow> real" where
  "double_of x =
     (if x = 0 then 0
      else (let p = quantum 2200 \<bar>x\<bar> 0
            in sgn x * of_int (round_half_even (\<bar>x\<bar> / pow2 p)) * pow2 p))"

text \<open>\<^verbatim>\<open>a / b\<close> on numbers: a zero divisor raises, otherwise the quotient is rounded.\<close>

definition truediv :: "real \<Rightarrow> real \<Rightarrow> py_error + real" where
  "truediv a b = (if b = 0 then Inl ZeroDivisionError else Inr (double_of (a / b)))"

text \<open>
  \<^verbatim>\<open>round(x, n)\<close> on a float: the multiple of \<open>10 ^ -n\<close> nearest to the exact value of
  \<open>x\<close>, a tie going to the even one, and then the binary64 number nearest to it.
\<close>

definition py_round :: "real \<Rightarrow> nat \<Rightarrow> real" where
  "py_round x ndigits = double_of (of_int (round_half_even (x * 10 ^ ndigits)) / 10 ^ ndigits)"

text \<open>
  \<^verbatim>\<open>int(x)\<close> on a float truncates towards zero. \<^verbatim>\<open>x % y\<close> on floats is the exact
  remainder of the truncated quotient, moved by \<open>y\<close> when its sign differs from the sign
  of \<open>y\<close>; the divisor of the source is the constant 3600.
\<close>

definition py_int :: "real \<Rightarrow> int" where
  "py_int x = (if x \<ge> 0 then \<lfloor>x\<rfloor> else \<lceil>x\<rceil>)"

definition py_fmod :: "real \<Rightarrow> real \<Rightarrow> real" where
  "py_fmod x y =
     (let m = x - y * of_int (py_int (x / y))
      in if m \<noteq> 0 \<and> ((y < 0) \<noteq> (m < 0)) then double_of (m + y) else m)"

subsection \<open>Durations\<close>

text \<open>
  A \<^verbatim>\<open>timedelta\<close> holds between \<open>- 999999999\<close> and \<open>999999999\<close> whole days;
  \<open>new_delta\<close> is the check that the constructor of the type makes on the result of
  every operation.
\<close>

type_synonym timedelta = int

definition minutes :: "int \<Rightarrow> timedelta" where
  "minutes m = m * 60000000"

definition hours :: "int \<Rightarrow> timedelta" where
  "hours h = h * 3600000000"

definition timedelta_range :: "int \<Rightarrow> bool" where
  "timedelta_range us =
     (- 999999999 \<le> us div 86400000000 \<and> us div 86400000000 \<le> 999999999)"

definition new_delta :: "int \<Rightarrow> py_error + timedelta" where
  "new_delta us = (if timedelta_range us then Inr us else Inl OverflowError)"

text \<open>\<^verbatim>\<open>n * d\<close> for an int \<open>n\<close> is exact.\<close>

definition timedelta_mul_int :: "int \<Rightarrow> timedelta \<Rightarrow> py_error + timedelta" where
  "timedelta_mul_int n d = new_delta (n * d)"

text \<open>
  \<^verbatim>\<open>d * f\<close> for a float \<open>f\<close>: the microseconds are multiplied by the exact value of \<open>f\<close>
  and the product is rounded to the nearest microsecond, a tie going to the even one.
\<close>

definition timedelta_mul_float :: "timedelta \<Rightarrow> real \<Rightarrow> py_error + timedelta" where
  "timedelta_mul_float d f = new_delta (round_half_even (of_int d * f))"

text \<open>\<^verbatim>\<open>d.total_seconds()\<close> is the quotient of two ints, rounded once.\<close>

definition total_seconds :: "timedelta \<Rightarrow> real" where
  "total_seconds d = double_of (of_int d / 10 ^ 6)"

section \<open>Triage logic (\<^verbatim>\<open>utils/triage_logic.py\<close>)\<close>

definition priority_weights :: "string \<rightharpoonup> real" where
  "priority_weights =
     [''CRITICAL'' \<mapsto> double_of 1.0, ''URGENT'' \<mapsto> double_of 0.8,
      ''MODERATE'' \<mapsto> double_of 0.5, ''LOW'' \<mapsto> double_of 0.2]"

definition wait_time_thresholds :: "string \<rightharpoonup> timedelta" where
  "wait_time_thresholds =
     [''CRITICAL'' \<mapsto> minutes 15, ''URGENT'' \<mapsto> hours 1,
      ''MODERATE'' \<mapsto> hours 3, ''LOW'' \<mapsto> hours 4]"

text \<open>\<^verbatim>\<open>d[k]\<close> on a dictionary: a missing key raises \<^verbatim>\<open>KeyError\<close>.\<close>

definition getitem :: "(string \<rightharpoonup> 'v) \<Rightarrow> string \<Rightarrow> py_error + 'v" where
  "getitem d k = (case d k of None \<Rightarrow> Inl (KeyError k) | Some v \<Rightarrow> Inr v)"

definition get_priority_level :: "real \<Rightarrow> string" where
  "get_priority_level severity_score =
     (if severity_score \<ge> 8 then ''CRITICAL''
      else if severity_score \<ge> 6 then ''URGENT''
      else if severity_score \<ge> 4 then ''MODERATE''
      else ''LOW'')"

text \<open>
  A queue entry is a dictionary; \<^verbatim>\<open>calculate_queue_position\<close> reads its entry
  \<^verbatim>\<open>'priority'\<close> only. The loop over \<^verbatim>\<open>current_queue\<close> carries \<^verbatim>\<open>position\<close> and stops
  at the first entry whose lookup raises.
\<close>

type_synonym patient = "string \<rightharpoonup> string"

fun queue_loop :: "real \<Rightarrow> patient list \<Rightarrow> int \<Rightarrow> py_error + int" where
  "queue_loop weight [] position = Inr position"
| "queue_loop weight (patient # rest) position =
     (case getitem patient ''priority'' of
        Inl e \<Rightarrow> Inl e
      | Inr p \<Rightarrow>
          (case getitem priority_weights p of
             Inl e \<Rightarrow> Inl e
           | Inr w \<Rightarrow> queue_loop weight rest (if w > weight then position + 1 else position)))"

definition calculate_queue_position ::
  "real \<Rightarrow> 'time \<Rightarrow> patient list \<Rightarrow> py_error + (int \<times> string)" where
  "calculate_queue_position severity_score arrival_time current_queue =
     (let priority = get_priority_level severity_score in
      case getitem priority_weights priority of
        Inl e \<Rightarrow> Inl e
      | Inr weight \<Rightarrow>
          (case queue_loop weight current_queue 1 of
             Inl e \<Rightarrow> Inl e
           | Inr position \<Rightarrow> Inr (position, priority)))"

text \<open>\<^verbatim>\<open>f"{n}"\<close> on an int is its decimal numeral.\<close>

fun digits :: "nat \<Rightarrow> string" where
  "digits n =
     (if n < 10 then [''0123456789'' ! n]
      else digits (n div 10) @ [''0123456789'' ! (n mod 10)])"

declare digits.simps [simp del]

definition str_int :: "int \<Rightarrow> string" where
  "str_int i = (if i < 0 then CHR ''-'' # digits (nat (- i)) else digits (nat i))"

definition format_wait_time :: "timedelta \<Rightarrow> string" where
  "format_wait_time wait_time =
     (if wait_time < minutes 1 then ''Immediate''
      else if wait_time < hours 1 then
        (let minutes = py_int (double_of (total_seconds wait_time / 60))
         in str_int minutes @ '' minutes'')
      else
        (let hours = py_int (double_of (total_seconds wait_time / 3600));
             minutes = py_int (double_of (py_fmod (total_seconds wait_time) 3600 / 60))
         in if minutes = 0 then str_int hours @ '' hours''
            else str_int hours @ '' hours '' @ str_int minutes @ '' minutes''))"

text \<open>
  \<open>final_wait\<close> is the local variable \<^verbatim>\<open>final_wait\<close> of \<^verbatim>\<open>estimate_wait_time\<close>, the
  duration it has computed before formatting it (lines 42 to 50 of the source). The
  statements come in the order of the source: the product with the position, the
  lookup of the weight, the product with \<^verbatim>\<open>1 - priority_factor\<close>, the lookup of the
  threshold, the minimum.
\<close>

definition final_wait :: "int \<Rightarrow> string \<Rightarrow> timedelta \<Rightarrow> py_error + timedelta" where
  "final_wait queue_position priority avg_processing_time =
     (case timedelta_mul_int queue_position avg_processing_time of
        Inl e \<Rightarrow> Inl e
      | Inr base_wait \<Rightarrow>
          (case getitem priority_weights priority of
             Inl e \<Rightarrow> Inl e
           | Inr priority_factor \<Rightarrow>
               (case timedelta_mul_float base_wait (double_of (1 - priority_factor)) of
                  Inl e \<Rightarrow> Inl e
                | Inr adjusted_wait \<Rightarrow>
                    (case getitem wait_time_thresholds priority of
                       Inl e \<Rightarrow> Inl e
                     | Inr max_wait \<Rightarrow> Inr (min adjusted_wait max_wait)))))"

definition estimate_wait_time :: "int \<Rightarrow> string \<Rightarrow> timedelta \<Rightarrow> py_error + string" where
  "estimate_wait_time queue_position priority avg_processing_time =
     (case final_wait queue_position priority avg_processing_time of
        Inl e \<Rightarrow> Inl e
      | Inr d \<Rightarrow> Inr (format_wait_time d))"

text \<open>The default of the parameter \<^verbatim>\<open>avg_processing_time\<close>.\<close>

definition default_processing_time :: timedelta where
  "default_processing_time = minutes 15"

section \<open>Symptom analyzer (\<^verbatim>\<open>models/symptom_analyzer.py\<close>)\<close>

text \<open>
  The dictionary \<^verbatim>\<open>severity_keywords\<close>, as the list of its items in insertion order:
  the name of the level, its keywords and its score.
\<close>

definition severity_keywords :: "(string \<times> string list \<times> int) list" where
  "severity_keywords =
     [(''critical'',
       [''chest pain'', ''difficulty breathing'', ''severe bleeding'', ''unconscious'',
        ''stroke'', ''heart attack'', ''severe allergic reaction''], 10),
      (''urgent'',
       [''high fever'', ''severe pain'', ''vomiting blood'', ''severe headache'',
        ''difficulty swallowing'', ''severe burns''], 7),
      (''moderate'',
       [''fever'', ''headache'', ''nausea'', ''dizziness'', ''fatigue'', ''cough'',
        ''stomach pain''], 4),
      (''low'',
       [''mild pain'', ''runny nose'', ''slight fever'', ''minor cut'', ''bruise'',
        ''sore throat''], 2)]"

definition specialty_mapping :: "(string \<times> string list) list" where
  "specialty_mapping =
     [(''Emergency'',
       [''chest pain'', ''difficulty breathing'', ''severe bleeding'', ''unconscious'',
        ''stroke'']),
      (''Cardiology'',
       [''chest pain'', ''heart palpitations'', ''shortness of breath'',
        ''irregular heartbeat'']),
      (''Neurology'',
       [''headache'', ''dizziness'', ''seizure'', ''numbness'', ''confusion'',
        ''memory loss'']),
      (''Gastroenterology'',
       [''stomach pain'', ''nausea'', ''vomiting'', ''diarrhea'', ''constipation'',
        ''acid reflux'']),
      (''Dermatology'',
       [''rash'', ''skin irritation'', ''itching'', ''acne'', ''mole changes'',
        ''skin lesion'']),
      (''Orthopedics'',
       [''joint pain'', ''back pain'', ''fracture'', ''sprain'', ''muscle pain'',
        ''bone pain'']),
      (''General Practice'',
       [''fever'', ''fatigue'', ''general discomfort'', ''cold symptoms'',
        ''flu symptoms''])]"

text \<open>
  \<^verbatim>\<open>_initialize_symptom_database\<close>: one entry \<^verbatim>\<open>(symptom, severity, score)\<close> for every
  keyword of every level, in the order of the levels and of their keywords.
\<close>

definition symptom_database :: "(string \<times> string \<times> int) list" where
  "symptom_database =
     concat (map (\<lambda>(severity, keywords, score).
                    map (\<lambda>keyword. (keyword, severity, score)) keywords)
                 severity_keywords)"

subsection \<open>Texts and the Unicode tables\<close>

text \<open>
  A text is the list of its code points. The program reads the Unicode database
  through \<^verbatim>\<open>str.lower\<close>, \<^verbatim>\<open>str.strip\<close>, \<^verbatim>\<open>str.split\<close> and the classes \<^verbatim>\<open>\w\<close> and
  \<^verbatim>\<open>\s\<close> of regular expressions. The database is not part of the sources, so it is a
  parameter of the model: \<open>str_lower\<close> is \<^verbatim>\<open>str.lower\<close> on whole texts, \<open>isspace\<close> is the
  class of white space (the one of \<^verbatim>\<open>strip\<close>, \<^verbatim>\<open>split\<close> and \<^verbatim>\<open>\s\<close>), and \<open>isalnum\<close>
  is the class of letters and numbers (\<^verbatim>\<open>\w\<close> is this class and the underscore).
\<close>

type_synonym ustring = "nat list"

definition str :: "string \<Rightarrow> ustring" where
  "str s = map of_char s"

definition occurs_in :: "string \<Rightarrow> ustring \<Rightarrow> bool" where
  "occurs_in keyword text = sublist (str keyword) text"

record unicode =
  str_lower :: "ustring \<Rightarrow> ustring"
  isspace :: "nat \<Rightarrow> bool"
  isalnum :: "nat \<Rightarrow> bool"

text \<open>
  The tables of Python on the code points 0 to 255, where lower case is at a distance
  of 32 and does not depend on the context. On these code points \<open>latin1\<close> is what the
  program reads; it is used for examples on texts that stay below 256.
\<close>

definition latin1 :: unicode where
  "latin1 =
     \<lparr> str_lower = map (\<lambda>c. if (65 \<le> c \<and> c \<le> 90) \<or> (192 \<le> c \<and> c \<le> 214)
                                 \<or> (216 \<le> c \<and> c \<le> 222)
                              then c + 32 else c),
       isspace = (\<lambda>c. (9 \<le> c \<and> c \<le> 13) \<or> (28 \<le> c \<and> c \<le> 32) \<or> c = 133 \<or> c = 160),
       isalnum = (\<lambda>c. (48 \<le> c \<and> c \<le> 57) \<or> (65 \<le> c \<and> c \<le> 90) \<or> (97 \<le> c \<and> c \<le> 122)
                       \<or> c = 170 \<or> c = 178 \<or> c = 179 \<or> c = 181 \<or> c = 185 \<or> c = 186
                       \<or> (188 \<le> c \<and> c \<le> 190) \<or> (192 \<le> c \<and> c \<le> 214)
                       \<or> (216 \<le> c \<and> c \<le> 246) \<or> (248 \<le> c \<and> c \<le> 255)) \<rparr>"

subsection \<open>Text normalisation\<close>

definition strip :: "unicode \<Rightarrow> ustring \<Rightarrow> ustring" where
  "strip u s = rev (dropWhile (isspace u) (rev (dropWhile (isspace u) s)))"

text \<open>\<^verbatim>\<open>re.sub(r'\s+', ' ', text)\<close>: every maximal run of white space becomes one blank.\<close>

fun collapse_spaces :: "unicode \<Rightarrow> bool \<Rightarrow> ustring \<Rightarrow> ustring" where
  "collapse_spaces u in_run [] = []"
| "collapse_spaces u in_run (c # cs) =
     (if isspace u c then
        (if in_run then collapse_spaces u True cs else 32 # collapse_spaces u True cs)
      else c # collapse_spaces u False cs)"

text \<open>
  \<^verbatim>\<open>_clean_text\<close>: lower case, \<^verbatim>\<open>strip\<close>, then a blank (code point 32) for every
  character outside \<^verbatim>\<open>\w\<close> and \<^verbatim>\<open>\s\<close>, then the runs of white space.
\<close>

definition clean_text :: "unicode \<Rightarrow> ustring \<Rightarrow> ustring" where
  "clean_text u text =
     (let text1 = strip u (str_lower u text);
          text2 = map (\<lambda>c. if \<not> (isalnum u c \<or> c = 95) \<and> \<not> isspace u c then 32 else c) text1
      in collapse_spaces u False text2)"

text \<open>\<^verbatim>\<open>text.split()\<close>: the maximal runs of characters that are not white space.\<close>

fun split_from :: "unicode \<Rightarrow> ustring \<Rightarrow> ustring \<Rightarrow> ustring list" where
  "split_from u cur [] = (if cur = [] then [] else [rev cur])"
| "split_from u cur (c # cs) =
     (if isspace u c then
        (if cur = [] then split_from u [] cs else rev cur # split_from u [] cs)
      else split_from u (c # cur) cs)"

definition py_split :: "unicode \<Rightarrow> ustring \<Rightarrow> ustring list" where
  "py_split u text = split_from u [] text"

subsection \<open>Scoring\<close>

text \<open>
  The two nested \<^verbatim>\<open>for\<close> loops of \<^verbatim>\<open>_calculate_severity_lightweight\<close> carry the pair
  \<^verbatim>\<open>(total_score, matches)\<close>: \<open>scan_keywords\<close> is the inner loop over the keywords of
  one level, \<open>scan_levels\<close> the outer loop over the levels.
\<close>

definition scan_keywords :: "ustring \<Rightarrow> int \<Rightarrow> string list \<Rightarrow> int \<times> nat \<Rightarrow> int \<times> nat" where
  "scan_keywords text score keywords acc =
     fold (\<lambda>keyword (total_score, matches).
             if occurs_in keyword text then (total_score + score, matches + 1)
             else (total_score, matches))
          keywords acc"

definition scan_levels ::
  "ustring \<Rightarrow> (string \<times> string list \<times> int) list \<Rightarrow> int \<times> nat \<Rightarrow> int \<times> nat" where
  "scan_levels text levels acc =
     fold (\<lambda>(severity, keywords, score) acc. scan_keywords text score keywords acc) levels acc"

definition calculate_severity_lightweight :: "ustring \<Rightarrow> py_error + real" where
  "calculate_severity_lightweight text =
     (case scan_levels text severity_keywords (0, 0) of
        (total_score, matches) \<Rightarrow>
          if matches = 0 then Inr 3.0
          else (case truediv (of_int total_score) (of_nat matches) of
                  Inl e \<Rightarrow> Inl e
                | Inr avg_score \<Rightarrow> Inr (min avg_score 10.0)))"

text \<open>
  \<^verbatim>\<open>max(d, key=d.get)\<close> goes through the keys in insertion order and keeps the first one
  of maximal value.
\<close>

fun max_by_key :: "('a \<Rightarrow> nat) \<Rightarrow> 'a \<Rightarrow> 'a list \<Rightarrow> 'a" where
  "max_by_key key best [] = best"
| "max_by_key key best (x # xs) = max_by_key key (if key x > key best then x else best) xs"

definition determine_specialty_lightweight :: "ustring \<Rightarrow> string" where
  "determine_specialty_lightweight text =
     (let specialty_scores =
            map (\<lambda>(specialty, keywords).
                   (specialty,
                    fold (\<lambda>keyword score. if occurs_in keyword text then score + 1 else score)
                         keywords (0::nat)))
                specialty_mapping
      in if \<not> list_ex (\<lambda>(specialty, score). score \<noteq> 0) specialty_scores
         then ''General Practice''
         else (case specialty_scores of
                 [] \<Rightarrow> ''General Practice''
               | first # others \<Rightarrow> fst (max_by_key snd first others)))"

definition calculate_priority :: "real \<Rightarrow> string" where
  "calculate_priority severity_score =
     (if severity_score \<ge> 8 then ''CRITICAL''
      else if severity_score \<ge> 6 then ''URGENT''
      else if severity_score \<ge> 4 then ''MODERATE''
      else ''LOW'')"

text \<open>
  \<^verbatim>\<open>list(set(found_symptoms))\<close> lists each element of \<^verbatim>\<open>found_symptoms\<close> once, in an
  order that the language leaves open (it follows the hashes of the strings). The
  listing is therefore a parameter \<open>list_set\<close> of the model, and \<open>set_listing\<close> says what
  is known of it.
\<close>

definition set_listing :: "(string list \<Rightarrow> string list) \<Rightarrow> bool" where
  "set_listing list_set = (\<forall>xs. distinct (list_set xs) \<and> set (list_set xs) = set xs)"

definition collect_keywords :: "ustring \<Rightarrow> string list \<Rightarrow> string list \<Rightarrow> string list" where
  "collect_keywords text keywords found =
     fold (\<lambda>keyword found. if occurs_in keyword text then found @ [keyword] else found)
          keywords found"

definition found_symptoms :: "ustring \<Rightarrow> string list" where
  "found_symptoms text =
     fold (\<lambda>(severity, keywords, score) found. collect_keywords text keywords found)
          severity_keywords []"

definition extract_key_symptoms :: "(string list \<Rightarrow> string list) \<Rightarrow> ustring \<Rightarrow> string list" where
  "extract_key_symptoms list_set text = take 5 (list_set (found_symptoms text))"

text \<open>
  The messages are the ones of the source without the pictograph that opens each of
  them, which is outside the characters of \<open>string\<close>.
\<close>

definition generate_recommendations :: "real \<Rightarrow> string \<Rightarrow> string list" where
  "generate_recommendations severity_score specialty =
     (if severity_score \<ge> 8 then
        [''Seek immediate emergency care'',
         ''Call emergency services if symptoms worsen'',
         ''Do not drive yourself to hospital'',
         ''Time-sensitive condition - act now'']
      else if severity_score \<ge> 6 then
        [''Schedule urgent appointment with '' @ specialty,
         ''Monitor symptoms closely'',
         ''Seek care within 24 hours'',
         ''Document symptom progression'']
      else if severity_score \<ge> 4 then
        [''Schedule appointment with '' @ specialty,
         ''Monitor symptoms for changes'',
         ''Consider appropriate over-the-counter remedies'',
         ''Rest and maintain hydration'']
      else
        [''Routine consultation with '' @ specialty @ '' if symptoms persist'',
         ''Home care and monitoring'',
         ''Over-the-counter remedies may help'',
         ''Contact healthcare provider if symptoms worsen''])"

text \<open>\<^verbatim>\<open>_estimate_wait_time\<close> of the symptom analyzer: \<^verbatim>\<open>wait_times.get(priority, ...)\<close>.\<close>

definition wait_times :: "string \<rightharpoonup> string" where
  "wait_times =
     [''CRITICAL'' \<mapsto> ''Immediate (0-15 minutes)'',
      ''URGENT'' \<mapsto> ''Priority (30-60 minutes)'',
      ''MODERATE'' \<mapsto> ''Standard (1-3 hours)'',
      ''LOW'' \<mapsto> ''Routine (2-4 hours)'']"

definition symptom_estimate_wait_time :: "string \<Rightarrow> string" where
  "symptom_estimate_wait_time priority =
     (case wait_times priority of None \<Rightarrow> ''2-4 hours'' | Some w \<Rightarrow> w)"

text \<open>
  \<^verbatim>\<open>_calculate_confidence\<close>: the quotient of the two counts is a float, its product
  with 100 is rounded again, and the result is rounded to one decimal.
\<close>

definition calculate_confidence :: "unicode \<Rightarrow> ustring \<Rightarrow> py_error + real" where
  "calculate_confidence u text =
     (let word_count = length (py_split u text);
          symptom_matches =
            length (concat (map (\<lambda>(severity, keywords, score).
                                   filter (\<lambda>keyword. occurs_in keyword text) keywords)
                                severity_keywords))
      in if word_count = 0 then Inr 0.0
         else (case truediv (of_nat symptom_matches) (of_nat word_count) of
                 Inl e \<Rightarrow> Inl e
               | Inr ratio \<Rightarrow>
                   (let confidence = min (double_of (ratio * 100)) 95.0
                    in Inr (py_round confidence 1))))"

record symptom_analysis =
  severity_score :: real
  priority_level :: string
  recommended_specialty :: string
  key_symptoms :: "string list"
  recommendations :: "string list"
  estimated_wait_time :: string
  urgency_flag :: bool
  confidence_score :: real

text \<open>
  \<^verbatim>\<open>analyze_symptoms\<close> evaluates the severity before the other entries and the
  confidence last; an exception of either one ends the call.
\<close>

definition analyze_symptoms ::
  "unicode \<Rightarrow> (string list \<Rightarrow> string list) \<Rightarrow> ustring \<Rightarrow> py_error + symptom_analysis" where
  "analyze_symptoms u list_set symptom_text =
     (let cleaned_text = clean_text u symptom_text in
      case calculate_severity_lightweight cleaned_text of
        Inl e \<Rightarrow> Inl e
      | Inr severity \<Rightarrow>
          (let specialty = determine_specialty_lightweight cleaned_text;
               priority = calculate_priority severity;
               symptoms = extract_key_symptoms list_set cleaned_text;
               recs = generate_recommendations severity specialty
           in case calculate_confidence u cleaned_text of
                Inl e \<Rightarrow> Inl e
              | Inr confidence \<Rightarrow>
                  Inr \<lparr> severity_score = py_round severity 2,
                        priority_level = priority,
                        recommended_specialty = specialty,
                        key_symptoms = symptoms,
                        recommendations = recs,
                        estimated_wait_time = symptom_estimate_wait_time priority,
                        urgency_flag = (severity > 7),
                        confidence_score = confidence \<rparr>))"

section \<open>Image analyzer (\<^verbatim>\<open>models/image_analyzer.py\<close>)\<close>

text \<open>
  The three dictionaries of features that \<^verbatim>\<open>_analyze_colors\<close>, \<^verbatim>\<open>_analyze_texture\<close> and
  \<^verbatim>\<open>_analyze_shapes\<close> return. \<open>color_uniformity\<close> is the standard deviation of the hue.
\<close>

record color_analysis =
  mean_hue :: real
  mean_saturation :: real
  mean_brightness :: real
  red_percentage :: real
  color_uniformity :: real

record texture_analysis =
  texture_variance :: real
  edge_density :: real
  smoothness :: real

record shape_analysis =
  contour_count :: int
  largest_area :: real
  circularity :: real
  irregularity_score :: real

text \<open>The local variable \<^verbatim>\<open>severity\<close> goes through six conditional increments.\<close>

definition calculate_image_severity ::
  "color_analysis \<Rightarrow> texture_analysis \<Rightarrow> shape_analysis \<Rightarrow> int" where
  "calculate_image_severity color texture shape =
     (let severity = 0;
          severity = (if red_percentage color > 20 then severity + 3 else severity);
          severity = (if color_uniformity color > 50 then severity + 2 else severity);
          severity = (if texture_variance texture > 1000 then severity + 2 else severity);
          severity = (if edge_density texture > 30 then severity + 1 else severity);
          severity = (if irregularity_score shape > 0.7 then severity + 2 else severity);
          severity = (if contour_count shape > 5 then severity + 1 else severity)
      in min severity 10)"

text \<open>The list \<^verbatim>\<open>findings\<close> grows by \<^verbatim>\<open>append\<close>.\<close>

definition generate_findings ::
  "color_analysis \<Rightarrow> texture_analysis \<Rightarrow> shape_analysis \<Rightarrow> string list" where
  "generate_findings color texture shape =
     (let findings = [];
          findings = (if red_percentage color > 15
                      then findings @ [''Possible inflammation or irritation detected'']
                      else findings);
          findings = (if texture_variance texture > 1500
                      then findings @ [''Irregular texture patterns observed'']
                      else findings);
          findings = (if irregularity_score shape > 0.6
                      then findings @ [''Irregular shape characteristics noted'']
                      else findings);
          findings = (if color_uniformity color > 60
                      then findings @ [''Non-uniform coloration detected'']
                      else findings)
      in if findings = []
         then [''No significant abnormalities detected in basic analysis'']
         else findings)"

record image_features =
  features_color_analysis :: color_analysis
  features_texture_analysis :: texture_analysis
  features_shape_analysis :: shape_analysis
  features_severity_score :: int
  features_confidence :: real
  features_findings :: "string list"

text \<open>
  \<^verbatim>\<open>_analyze_image_features\<close> from the point where the three groups of features have
  been measured on the (resized) image by the image library.
\<close>

definition analyze_image_features ::
  "color_analysis \<Rightarrow> texture_analysis \<Rightarrow> shape_analysis \<Rightarrow> image_features" where
  "analyze_image_features color texture shape =
     (let severity = calculate_image_severity color texture shape
      in \<lparr> features_color_analysis = color,
           features_texture_analysis = texture,
           features_shape_analysis = shape,
           features_severity_score = severity,
           features_confidence = min 85.0 (max 40.0 (of_int severity * 10)),
           features_findings = generate_findings color texture shape \<rparr>)"

definition generate_image_recommendations :: "image_features \<Rightarrow> string list" where
  "generate_image_recommendations analysis_results =
     (let severity = features_severity_score analysis_results
      in if severity \<ge> 7 then
           [''Immediate medical attention recommended'',
            ''Document changes with photos'',
            ''Visit emergency care or urgent care center'',
            ''Note any associated symptoms'']
         else if severity \<ge> 4 then
           [''Schedule appointment with healthcare provider'',
            ''Monitor for changes'',
            ''Take photos to track progression'',
            ''Consider dermatology consultation if skin-related'']
         else
           [''Continue monitoring'',
            ''Basic home care may be sufficient'',
            ''Contact healthcare provider if symptoms worsen'',
            ''Keep record of any changes''])"

text \<open>
  The value that \<^verbatim>\<open>analyze_image\<close> returns is a dictionary from strings to values of
  several types.
\<close>

datatype py_value =
    Str string
  | Float real
  | Bool bool
  | StrList "string list"
  | Features image_features

text \<open>
  \<^verbatim>\<open>image_data\<close> is either a string in base 64 or an image that is decoded already.
  The calls into the image libraries are parameters of the model, each one returning
  \<open>Inl msg\<close> when it raises an exception \<open>e\<close> with \<^verbatim>\<open>str(e) = msg\<close>:
  \<open>decode\<close> is \<^verbatim>\<open>Image.open(io.BytesIO(base64.b64decode(\<dots>)))\<close>, and \<open>extract\<close> is the
  conversion to an array followed by the resizing and the three measurements of
  \<^verbatim>\<open>_analyze_image_features\<close>.
\<close>

datatype 'img image_data = Base64 string | Image 'img

definition try_block ::
  "(string \<Rightarrow> string + 'img) \<Rightarrow>
   ('img \<Rightarrow> string + color_analysis \<times> texture_analysis \<times> shape_analysis) \<Rightarrow>
   'img image_data \<Rightarrow> string \<Rightarrow> string + (string \<rightharpoonup> py_value)" where
  "try_block decode extract image_data image_type =
     (case (case image_data of Base64 s \<Rightarrow> decode s | Image img \<Rightarrow> Inr img) of
        Inl e \<Rightarrow> Inl e
      | Inr img \<Rightarrow>
          (case extract img of
             Inl e \<Rightarrow> Inl e
           | Inr (color, texture, shape) \<Rightarrow>
               (let analysis_results = analyze_image_features color texture shape
                in Inr [''image_type'' \<mapsto> Str image_type,
                        ''analysis_results'' \<mapsto> Features analysis_results,
                        ''recommendations'' \<mapsto>
                           StrList (generate_image_recommendations analysis_results),
                        ''confidence_score'' \<mapsto> Float (features_confidence analysis_results),
                        ''requires_professional_review'' \<mapsto>
                           Bool (features_severity_score analysis_results > 6)])))"

definition analyze_image ::
  "(string \<Rightarrow> string + 'img) \<Rightarrow>
   ('img \<Rightarrow> string + color_analysis \<times> texture_analysis \<times> shape_analysis) \<Rightarrow>
   'img image_data \<Rightarrow> string \<Rightarrow> (string \<rightharpoonup> py_value)" where
  "analyze_image decode extract image_data image_type =
     (case try_block decode extract image_data image_type of
        Inr result \<Rightarrow> result
      | Inl e \<Rightarrow>
          [''error'' \<mapsto> Str (''Image analysis failed: '' @ e),
           ''recommendations'' \<mapsto>
              StrList [''Please consult healthcare professional for proper evaluation''],
           ''confidence_score'' \<mapsto> Float 0.0,
           ''requires_professional_review'' \<mapsto> Bool True])"

section \<open>Reference definitions\<close>

text \<open>
  The definitions of this section are not taken from the source. They write down the
  tables and formulas that the specification of the system gives in words, and the
  theorems below compare the functions of the source with them.
\<close>

definition priority_tiers :: "string list" where
  "priority_tiers = [''CRITICAL'', ''URGENT'', ''MODERATE'', ''LOW'']"

text \<open>The specification: weights CRITICAL = 1.0, URGENT = 0.8, MODERATE = 0.5, LOW = 0.2.\<close>

definition spec_tier_weight :: "string \<Rightarrow> real" where
  "spec_tier_weight p =
     (if p = ''CRITICAL'' then 1.0 else if p = ''URGENT'' then 0.8
      else if p = ''MODERATE'' then 0.5 else 0.2)"

text \<open>The specification: maximal waits of 15 minutes, 1 hour, 3 hours and 4 hours.\<close>

definition spec_tier_threshold :: "string \<Rightarrow> timedelta" where
  "spec_tier_threshold p =
     (if p = ''CRITICAL'' then minutes 15 else if p = ''URGENT'' then hours 1
      else if p = ''MODERATE'' then hours 3 else hours 4)"

text \<open>A queue snapshot: every entry has a priority, which is one of the four tiers.\<close>

definition well_formed_queue :: "patient list \<Rightarrow> bool" where
  "well_formed_queue queue =
     list_all (\<lambda>patient. case patient ''priority'' of
                            None \<Rightarrow> False
                          | Some p \<Rightarrow> p \<in> set priority_tiers) queue"

text \<open>
  The entries of the symptom database whose keyword occurs in the text, each entry once.
\<close>

definition keyword_hits :: "ustring \<Rightarrow> (string \<times> string \<times> int) list" where
  "keyword_hits text = filter (\<lambda>entry. occurs_in (fst entry) text) symptom_database"

text \<open>
  The reading of the specification in which every occurrence of a keyword counts:
  \<open>count_occurrences k text\<close> is the number of positions of \<open>text\<close> at which \<open>k\<close>
  starts, and the score of a keyword enters the sum and the count once for each of them.
\<close>

fun count_occurrences :: "string \<Rightarrow> ustring \<Rightarrow> nat" where
  "count_occurrences keyword [] = (if keyword = [] then 1 else 0)"
| "count_occurrences keyword (c # cs) =
     (if prefix (str keyword) (c # cs) then 1 else 0) + count_occurrences keyword cs"

definition spec_severity_per_occurrence :: "ustring \<Rightarrow> real" where
  "spec_severity_per_occurrence text =
     (let total_score = sum_list (map (\<lambda>(symptom, severity, score).
                                         score * int (count_occurrences symptom text))
                                      symptom_database);
          matches = sum_list (map (\<lambda>(symptom, severity, score).
                                     count_occurrences symptom text)
                                  symptom_database)
      in if matches = 0 then 3 else min (of_int total_score / of_nat matches) 10)"

text \<open>The entries of a list of levels; \<open>symptom_database\<close> is \<open>entries_of severity_keywords\<close>.\<close>

definition entries_of ::
  "(string \<times> string list \<times> int) list \<Rightarrow> (string \<times> string \<times> int) list" where
  "entries_of levels =
     concat (map (\<lambda>(severity, keywords, score).
                    map (\<lambda>keyword. (keyword, severity, score)) keywords)
                 levels)"

text \<open>The specification: the confidence of an image analysis is a value clamped to a range.\<close>

definition spec_clamp :: "real \<Rightarrow> real \<Rightarrow> real \<Rightarrow> real" where
  "spec_clamp x lo hi = (if x < lo then lo else if hi < x then hi else x)"

text \<open>
  Decoding or processing fails with message \<open>msg\<close>: the first call into the image
  libraries that raises, raises \<open>msg\<close>.
\<close>

definition processing_fails ::
  "(string \<Rightarrow> string + 'img) \<Rightarrow>
   ('img \<Rightarrow> string + color_analysis \<times> texture_analysis \<times> shape_analysis) \<Rightarrow>
   'img image_data \<Rightarrow> string \<Rightarrow> bool" where
  "processing_fails decode extract image_data msg =
     (case image_data of
        Base64 s \<Rightarrow> (case decode s of Inl e \<Rightarrow> e = msg | Inr img \<Rightarrow> extract img = Inl msg)
      | Image img \<Rightarrow> extract img = Inl msg)"

section \<open>Rounding\<close>

lemma round_half_even_le: "x \<le> of_int n \<Longrightarrow> round_half_even x \<le> n"
proof -
  assume a: "x \<le> of_int n"
  then have fl: "\<lfloor>x\<rfloor> \<le> n" by (simp add: floor_le_iff)
  show ?thesis
  proof (cases "\<lfloor>x\<rfloor> = n")
    case True
    with a have "x = of_int \<lfloor>x\<rfloor>" using of_int_floor_le [of x] by linarith
    then have "x - of_int \<lfloor>x\<rfloor> = 0" by simp
    with True show ?thesis by (simp add: round_half_even_def Let_def)
  next
    case False
    with fl have "\<lfloor>x\<rfloor> + 1 \<le> n" by simp
    then show ?thesis by (simp add: round_half_even_def Let_def)
  qed
qed

lemma round_half_even_ge: "of_int n \<le> x \<Longrightarrow> n \<le> round_half_even x"
proof -
  assume "of_int n \<le> x"
  then have "n \<le> \<lfloor>x\<rfloor>" by (simp add: le_floor_iff)
  then show ?thesis by (simp add: round_half_even_def Let_def)
qed

lemma round_half_even_near:
  assumes "of_int k - 1 / 2 < x" "x < of_int k + 1 / 2"
  shows "round_half_even x = k"
proof (cases "of_int k \<le> x")
  case True
  with assms have "\<lfloor>x\<rfloor> = k" by (simp add: floor_eq_iff)
  with assms show ?thesis by (simp add: round_half_even_def Let_def)
next
  case False
  with assms have fl: "\<lfloor>x\<rfloor> = k - 1" by (simp add: floor_eq_iff)
  with assms have "x - of_int \<lfloor>x\<rfloor> > 1 / 2" by simp
  with fl show ?thesis by (simp add: round_half_even_def Let_def)
qed

lemma round_half_even_of_int: "round_half_even (of_int k) = k"
  by (rule round_half_even_near) simp_all

section \<open>Binary64\<close>

lemma quantum_up:
  "0 < x \<Longrightarrow> 2 ^ 52 \<le> x * 2 ^ n \<Longrightarrow> x * 2 ^ n < 2 ^ 53 \<Longrightarrow> n < fuel \<Longrightarrow>
   - 1074 \<le> p - int n \<Longrightarrow> quantum fuel x p = p - int n"
proof (induction n arbitrary: x p fuel)
  case 0
  then obtain k where "fuel = Suc k" by (cases fuel) auto
  with 0 show ?case by simp
next
  case (Suc n)
  from Suc.prems obtain k where fuel: "fuel = Suc k" and k: "n < k"
    by (cases fuel) auto
  have "(1::real) \<le> 2 ^ n" by simp
  with Suc.prems(1) have "x * 2 \<le> x * 2 * 2 ^ n"
    by (simp add: mult_le_cancel_left1)
  also from Suc.prems(3) have "x * 2 * 2 ^ n < 2 ^ 53" by (simp add: mult.assoc)
  finally have small: "x < 2 ^ 52" by simp
  have "quantum k (x * 2) (p - 1) = p - 1 - int n"
    using Suc.prems k by (intro Suc.IH) (simp_all add: mult.assoc)
  with small Suc.prems(5) show ?case by (simp add: fuel)
qed

lemma double_of_normal:
  assumes "0 < x" "2 ^ 52 \<le> x * 2 ^ n" "x * 2 ^ n < 2 ^ 53" "n \<le> 1074"
  shows "double_of x = of_int (round_half_even (x * 2 ^ n)) / 2 ^ n"
proof -
  have "quantum 2200 x 0 = 0 - int n"
    using assms by (intro quantum_up) simp_all
  moreover have "pow2 (- int n) = 1 / 2 ^ n"
    by (simp add: pow2_def)
  ultimately show ?thesis using assms(1) by (simp add: double_of_def)
qed

lemma quantum_small: "x < 2 ^ 53 \<Longrightarrow> quantum fuel x p \<le> p"
proof (induction fuel arbitrary: x p)
  case 0
  show ?case by simp
next
  case (Suc fuel)
  show ?case
  proof (cases "x < 2 ^ 52 \<and> p > - 1074")
    case True
    then have "x * 2 < 2 ^ 53" by simp
    from Suc.IH [OF this, of "p - 1"] True Suc.prems show ?thesis by simp
  next
    case False
    with Suc.prems show ?thesis by auto
  qed
qed

lemma pow2_pos: "0 < pow2 p"
  by (simp add: pow2_def)

lemma double_of_nonneg: "0 \<le> x \<Longrightarrow> 0 \<le> double_of x"
proof -
  assume x: "0 \<le> x"
  have "0 \<le> \<bar>x\<bar> / pow2 p" for p
    using pow2_pos [of p] by simp
  then have "0 \<le> round_half_even (\<bar>x\<bar> / pow2 p)" for p
    using round_half_even_ge [of 0 "\<bar>x\<bar> / pow2 p"] by simp
  then have "0 \<le> real_of_int (round_half_even (\<bar>x\<bar> / pow2 p)) * pow2 p" for p
    using pow2_pos [of p] by simp
  with x show ?thesis
    by (simp add: double_of_def Let_def sgn_if mult.assoc)
qed

lemma double_of_le_int:
  assumes "0 \<le> x" "x \<le> of_int N" "x < 2 ^ 53"
  shows "double_of x \<le> of_int N"
proof (cases "x = 0")
  case True
  with assms show ?thesis by (simp add: double_of_def)
next
  case False
  with assms have pos: "0 < x" by simp
  define p where "p = quantum 2200 x 0"
  define n where "n = nat (- p)"
  from assms pos have "p \<le> 0"
    unfolding p_def by (intro quantum_small) simp
  then have pw: "pow2 p = 1 / 2 ^ n"
    by (cases "p = 0") (simp_all add: pow2_def n_def)
  have "x * 2 ^ n \<le> of_int (N * 2 ^ n)"
    using assms(2) by simp
  then have "round_half_even (x * 2 ^ n) \<le> N * 2 ^ n"
    by (rule round_half_even_le)
  then have "real_of_int (round_half_even (x * 2 ^ n)) \<le> of_int N * 2 ^ n"
    by (metis of_int_le_iff of_int_mult of_int_numeral of_int_power)
  then have "real_of_int (round_half_even (x * 2 ^ n)) / 2 ^ n \<le> of_int N"
    by (simp add: divide_le_eq)
  moreover from pos have "double_of x = of_int (round_half_even (x / pow2 p)) * pow2 p"
    by (simp add: double_of_def Let_def p_def)
  ultimately show ?thesis by (simp add: pw)
qed

lemma double_zero: "double_of 0 = 0"
  by (simp add: double_of_def)

lemma double_one: "double_of 1 = 1"
  by (simp add: double_of_normal [where n = 52] round_half_even_def)

lemma double_half: "double_of (1 / 2) = 1 / 2"
  by (simp add: double_of_normal [where n = 53] round_half_even_def)

lemma double_08: "double_of (4 / 5) = 3602879701896397 / 4503599627370496"
  by (simp add: double_of_normal [where n = 53] round_half_even_def)

lemma double_02: "double_of (1 / 5) = 3602879701896397 / 18014398509481984"
  by (simp add: double_of_normal [where n = 55] round_half_even_def)

lemma double_3: "double_of 3 = 3"
  by (simp add: double_of_normal [where n = 51] round_half_even_def)

lemma double_7: "double_of 7 = 7"
  by (simp add: double_of_normal [where n = 50] round_half_even_def)

text \<open>The factors \<^verbatim>\<open>1 - priority_factor\<close> of the four tiers.\<close>

lemma factor_critical: "double_of (1 - double_of 1) = 0"
  by (simp add: double_one double_zero)

lemma factor_urgent: "double_of (1 - double_of (4 / 5)) = 900719925474099 / 4503599627370496"
proof -
  have "double_of (900719925474099 / 4503599627370496)
        = 900719925474099 / 4503599627370496"
    by (simp add: double_of_normal [where n = 55] round_half_even_def)
  then show ?thesis by (simp add: double_08)
qed

lemma factor_moderate: "double_of (1 - double_of (1 / 2)) = 1 / 2"
  by (simp add: double_half)

lemma factor_low: "double_of (1 - double_of (1 / 5)) = 3602879701896397 / 4503599627370496"
proof -
  have "double_of (14411518807585587 / 18014398509481984)
        = 3602879701896397 / 4503599627370496"
    by (simp add: double_of_normal [where n = 53] round_half_even_def)
  then show ?thesis by (simp add: double_02)
qed

section \<open>Priority tiers\<close>

text \<open>
  Claim C1. For every severity score \<open>s\<close>, the priority function of the symptom analyzer
  and the one of the triage logic both return CRITICAL if \<open>s \<ge> 8\<close>, else URGENT if
  \<open>s \<ge> 6\<close>, else MODERATE if \<open>s \<ge> 4\<close>, else LOW; the two implementations agree on
  every score.
\<close>

theorem priority_step_function:
  "calculate_priority s =
     (if s \<ge> 8 then ''CRITICAL'' else if s \<ge> 6 then ''URGENT''
      else if s \<ge> 4 then ''MODERATE'' else ''LOW'')
   \<and> get_priority_level s =
     (if s \<ge> 8 then ''CRITICAL'' else if s \<ge> 6 then ''URGENT''
      else if s \<ge> 4 then ''MODERATE'' else ''LOW'')
   \<and> calculate_priority s = get_priority_level s"
  by (simp add: calculate_priority_def get_priority_level_def)

section \<open>Queue position\<close>

lemma weight_of_tier:
  "p \<in> set priority_tiers \<Longrightarrow>
   getitem priority_weights p = Inr (double_of (spec_tier_weight p))"
  by (auto simp: priority_tiers_def getitem_def priority_weights_def spec_tier_weight_def)

lemma threshold_of_tier:
  "p \<in> set priority_tiers \<Longrightarrow> getitem wait_time_thresholds p = Inr (spec_tier_threshold p)"
  by (auto simp: priority_tiers_def getitem_def wait_time_thresholds_def
        spec_tier_threshold_def)

lemma get_priority_level_tier: "get_priority_level s \<in> set priority_tiers"
  by (simp add: get_priority_level_def priority_tiers_def)

text \<open>Rounding the four weights to binary64 keeps their order.\<close>

lemma double_weight_order:
  "p \<in> set priority_tiers \<Longrightarrow> q \<in> set priority_tiers \<Longrightarrow>
   (double_of (spec_tier_weight p) > double_of (spec_tier_weight q))
     = (spec_tier_weight p > spec_tier_weight q)"
  by (auto simp: priority_tiers_def spec_tier_weight_def double_one double_08 double_half
        double_02)

text \<open>The loop adds one to \<open>position\<close> for every entry that is heavier than \<open>weight\<close>.\<close>

lemma queue_loop_count:
  "well_formed_queue queue \<Longrightarrow>
   queue_loop weight queue position =
     Inr (position + int (length (filter
            (\<lambda>patient. double_of (spec_tier_weight (the (patient ''priority''))) > weight)
            queue)))"
proof (induction queue arbitrary: position)
  case Nil
  then show ?case by simp
next
  case (Cons patient rest)
  from Cons.prems obtain p where p: "patient ''priority'' = Some p" "p \<in> set priority_tiers"
    and rest: "well_formed_queue rest"
    by (auto simp: well_formed_queue_def split: option.splits)
  show ?case
    using Cons.IH [OF rest] p
    by (simp add: getitem_def [of patient] weight_of_tier)
qed

lemma heavier_entries:
  assumes "well_formed_queue queue" "q \<in> set priority_tiers"
  shows "filter (\<lambda>patient. double_of (spec_tier_weight (the (patient ''priority'')))
                             > double_of (spec_tier_weight q)) queue
         = filter (\<lambda>patient. spec_tier_weight (the (patient ''priority''))
                             > spec_tier_weight q) queue"
proof (rule filter_cong [OF refl])
  fix patient
  assume "patient \<in> set queue"
  with assms(1) obtain p where "patient ''priority'' = Some p" "p \<in> set priority_tiers"
    by (auto simp: well_formed_queue_def list_all_iff split: option.splits)
  with assms(2) show "(double_of (spec_tier_weight (the (patient ''priority'')))
                             > double_of (spec_tier_weight q))
      = (spec_tier_weight (the (patient ''priority'')) > spec_tier_weight q)"
    by (simp add: double_weight_order)
qed

text \<open>
  Claim C3. For every severity score and every queue snapshot, the position that
  \<open>calculate_queue_position\<close> returns is one plus the number of entries of the queue
  whose priority weight (CRITICAL 1.0, URGENT 0.8, MODERATE 0.5, LOW 0.2) is strictly
  greater than the weight of the new entry; a CRITICAL entry that joins a queue of LOW
  entries only gets position 1.
\<close>

theorem queue_position_count:
  assumes "well_formed_queue queue"
  shows "calculate_queue_position s arrival queue =
           Inr (1 + int (length (filter
                  (\<lambda>patient. spec_tier_weight (the (patient ''priority''))
                               > spec_tier_weight (get_priority_level s)) queue)),
                get_priority_level s)
         \<and> (s \<ge> 8 \<and> list_all (\<lambda>patient. patient ''priority'' = Some ''LOW'') queue
            \<longrightarrow> calculate_queue_position s arrival queue = Inr (1, ''CRITICAL''))"
proof -
  have pos: "calculate_queue_position s arrival queue =
           Inr (1 + int (length (filter
                  (\<lambda>patient. spec_tier_weight (the (patient ''priority''))
                               > spec_tier_weight (get_priority_level s)) queue)),
                get_priority_level s)"
    by (simp add: calculate_queue_position_def Let_def
          weight_of_tier [OF get_priority_level_tier] queue_loop_count [OF assms]
          heavier_entries [OF assms get_priority_level_tier])
  have "filter (\<lambda>patient. spec_tier_weight (the (patient ''priority''))
                               > spec_tier_weight (get_priority_level s)) queue = []"
    if "s \<ge> 8" "list_all (\<lambda>patient. patient ''priority'' = Some ''LOW'') queue"
    using that
    by (auto simp: filter_empty_conv list_all_iff spec_tier_weight_def get_priority_level_def)
  with pos show ?thesis by (auto simp: get_priority_level_def)
qed

theorem queue_position_count_witness:
  "calculate_queue_position 9 ()
     [[''priority'' \<mapsto> ''LOW''], [''priority'' \<mapsto> ''LOW''], [''priority'' \<mapsto> ''LOW'']]
   = Inr (1, ''CRITICAL'')
   \<and> calculate_queue_position 5 ()
     [[''priority'' \<mapsto> ''URGENT''], [''priority'' \<mapsto> ''LOW''], [''priority'' \<mapsto> ''CRITICAL'']]
   = Inr (3, ''MODERATE'')"
  using queue_position_count
          [of "[[''priority'' \<mapsto> ''LOW''], [''priority'' \<mapsto> ''LOW''],
                [''priority'' \<mapsto> ''LOW'']]" 9 "()"]
        queue_position_count
          [of "[[''priority'' \<mapsto> ''URGENT''], [''priority'' \<mapsto> ''LOW''],
                [''priority'' \<mapsto> ''CRITICAL'']]" 5 "()"]
  by (simp add: well_formed_queue_def priority_tiers_def spec_tier_weight_def
        get_priority_level_def)

section \<open>Wait estimate\<close>

text \<open>The range of the type in microseconds.\<close>

lemma timedelta_range_bounds:
  "timedelta_range us
     = (- 86399999913600000000 \<le> us \<and> us \<le> 86399999999999999999)"
proof -
  have d: "us div 86400000000 = \<lfloor>real_of_int us / 86400000000\<rfloor>"
    using floor_divide_of_int_eq [of us 86400000000, where ?'a = real] by simp
  have "(- 999999999 \<le> \<lfloor>real_of_int us / 86400000000\<rfloor>)
      = (real_of_int (- 86399999913600000000) \<le> real_of_int us)"
    by (simp add: le_floor_iff pos_le_divide_eq)
  then have "(- 999999999 \<le> \<lfloor>real_of_int us / 86400000000\<rfloor>)
      = (- 86399999913600000000 \<le> us)"
    by (simp only: of_int_le_iff)
  moreover have "(\<lfloor>real_of_int us / 86400000000\<rfloor> \<le> 999999999)
      = (us \<le> 86399999999999999999)"
  proof -
    have "(\<lfloor>real_of_int us / 86400000000\<rfloor> \<le> 999999999)
      = (real_of_int us < 86400000000000000000)"
      by (simp add: floor_le_iff pos_divide_less_eq)
    also have "\<dots> = (real_of_int us < real_of_int 86400000000000000000)"
      by simp
    also have "\<dots> = (us < 86400000000000000000)"
      by (simp only: of_int_less_iff)
    also have "\<dots> = (us \<le> 86399999999999999999)"
      by linarith
    finally show ?thesis .
  qed
  ultimately show ?thesis unfolding timedelta_range_def d by simp
qed

lemma scale_factor:
  "p \<in> set priority_tiers \<Longrightarrow>
   0 \<le> double_of (1 - double_of (spec_tier_weight p))
   \<and> double_of (1 - double_of (spec_tier_weight p)) \<le> 1"
  by (auto simp: priority_tiers_def spec_tier_weight_def factor_critical factor_urgent
        factor_moderate factor_low)

text \<open>A product with a factor between 0 and 1 stays in the range.\<close>

lemma scaled_in_range:
  assumes "timedelta_range us" "0 \<le> f" "f \<le> 1"
  shows "timedelta_range (round_half_even (of_int us * f))"
proof (cases "0 \<le> us")
  case True
  with assms have "of_int 0 \<le> of_int us * f" "of_int us * f \<le> of_int us"
    by (simp_all add: mult_left_le)
  then have "0 \<le> round_half_even (of_int us * f)" "round_half_even (of_int us * f) \<le> us"
    by (simp_all only: round_half_even_ge round_half_even_le)
  with assms(1) show ?thesis by (simp add: timedelta_range_bounds)
next
  case False
  then have neg: "real_of_int us \<le> 0" by simp
  with assms have "of_int us * f \<le> of_int 0"
    by (simp add: mult_nonpos_nonneg)
  moreover from neg assms have "of_int us \<le> of_int us * f"
    using mult_left_mono_neg [of f 1 "of_int us"] by simp
  ultimately have "round_half_even (of_int us * f) \<le> 0" "us \<le> round_half_even (of_int us * f)"
    by (simp_all only: round_half_even_ge round_half_even_le)
  with assms(1) show ?thesis by (simp add: timedelta_range_bounds)
qed

lemma final_wait_closed:
  assumes "p \<in> set priority_tiers" "timedelta_range (n * apt)"
  shows "final_wait n p apt =
           Inr (min (round_half_even
                       (of_int (n * apt) * double_of (1 - double_of (spec_tier_weight p))))
                    (spec_tier_threshold p))"
proof -
  from scale_factor [OF assms(1)] assms(2)
  have "timedelta_range (round_half_even
          (of_int (n * apt) * double_of (1 - double_of (spec_tier_weight p))))"
    by (intro scaled_in_range) simp_all
  with assms(2) show ?thesis
    by (simp add: final_wait_def timedelta_mul_int_def timedelta_mul_float_def new_delta_def
          weight_of_tier [OF assms(1)] threshold_of_tier [OF assms(1)])
qed

lemma round_half_even_error: "\<bar>real_of_int (round_half_even x) - x\<bar> \<le> 1 / 2"
proof -
  have "real_of_int \<lfloor>x\<rfloor> \<le> x" "x < real_of_int \<lfloor>x\<rfloor> + 1"
    by linarith+
  then show ?thesis
    by (auto simp: round_half_even_def Let_def)
qed

text \<open>
  The float \<^verbatim>\<open>1 - priority_factor\<close> of a tier is within \<open>2 ^ -52\<close> of \<open>1 - weight\<close>.
\<close>

lemma scale_factor_error:
  "p \<in> set priority_tiers \<Longrightarrow>
   \<bar>double_of (1 - double_of (spec_tier_weight p)) - (1 - spec_tier_weight p)\<bar>
     \<le> 1 / 2 ^ 52"
  by (auto simp: priority_tiers_def spec_tier_weight_def factor_critical factor_urgent
        factor_moderate factor_low)

lemma scaled_error:
  assumes "p \<in> set priority_tiers"
  shows "\<bar>real_of_int (round_half_even
              (of_int b * double_of (1 - double_of (spec_tier_weight p))))
          - of_int b * (1 - spec_tier_weight p)\<bar>
         \<le> 1 / 2 + \<bar>real_of_int b\<bar> / 2 ^ 52"
proof -
  let ?f = "double_of (1 - double_of (spec_tier_weight p))"
  have "\<bar>real_of_int b * ?f - real_of_int b * (1 - spec_tier_weight p)\<bar>
        = \<bar>real_of_int b\<bar> * \<bar>?f - (1 - spec_tier_weight p)\<bar>"
    by (simp add: abs_mult right_diff_distrib [symmetric])
  also have "\<dots> \<le> \<bar>real_of_int b\<bar> * (1 / 2 ^ 52)"
    by (intro mult_left_mono scale_factor_error [OF assms]) simp
  finally have "\<bar>real_of_int b * ?f - real_of_int b * (1 - spec_tier_weight p)\<bar>
        \<le> \<bar>real_of_int b\<bar> / 2 ^ 52" by simp
  with round_half_even_error [of "real_of_int b * ?f"] show ?thesis
    by linarith
qed

text \<open>
  With the default of 15 minutes and a position that is not negative, the rounding
  changes nothing: below the threshold the product is a whole number of microseconds
  up to an error far below one half, and above it the minimum is the threshold.
\<close>

lemma urgent_round:
  assumes "0 \<le> n"
    and "x = real_of_int n * 900000000 * (900719925474099 / 4503599627370496)"
  shows "min (round_half_even x) 3600000000 = min (n * 180000000) 3600000000"
proof (cases "n \<le> 20")
  case True
  with assms(1) have "0 \<le> real_of_int n" "real_of_int n \<le> 20" by simp_all
  then have "real_of_int (n * 180000000) - 1 / 2 < x"
            "x < real_of_int (n * 180000000) + 1 / 2"
    unfolding assms(2) by simp_all
  then have "round_half_even x = n * 180000000"
    by (rule round_half_even_near)
  then show ?thesis by simp
next
  case False
  then have "21 \<le> real_of_int n" by simp
  then have "real_of_int 3600000000 \<le> x" unfolding assms(2) by simp
  then have "3600000000 \<le> round_half_even x"
    by (rule round_half_even_ge)
  with False show ?thesis by simp
qed

lemma low_round:
  assumes "0 \<le> n"
    and "x = real_of_int n * 900000000 * (3602879701896397 / 4503599627370496)"
  shows "min (round_half_even x) 14400000000 = min (n * 720000000) 14400000000"
proof (cases "n \<le> 20")
  case True
  with assms(1) have "0 \<le> real_of_int n" "real_of_int n \<le> 20" by simp_all
  then have "real_of_int (n * 720000000) - 1 / 2 < x"
            "x < real_of_int (n * 720000000) + 1 / 2"
    unfolding assms(2) by simp_all
  then have "round_half_even x = n * 720000000"
    by (rule round_half_even_near)
  then show ?thesis by simp
next
  case False
  then have "21 \<le> real_of_int n" by simp
  then have "real_of_int 14400000000 \<le> x" unfolding assms(2) by simp
  then have "14400000000 \<le> round_half_even x"
    by (rule round_half_even_ge)
  with False show ?thesis by simp
qed

lemma moderate_round:
  assumes "x = real_of_int n * 900000000 * (1 / 2)"
  shows "round_half_even x = n * 450000000"
proof -
  have "x = real_of_int (n * 450000000)" unfolding assms by simp
  then show ?thesis by (simp only: round_half_even_of_int)
qed

lemma default_exact:
  assumes "p \<in> set priority_tiers" "0 \<le> n"
  shows "real_of_int (min (round_half_even
                             (of_int (n * minutes 15)
                              * double_of (1 - double_of (spec_tier_weight p))))
                          (spec_tier_threshold p))
         = min (of_int n * of_int (minutes 15) * (1 - spec_tier_weight p))
               (of_int (spec_tier_threshold p))"
proof -
  from assms(1) consider "p = ''CRITICAL''" | "p = ''URGENT''" | "p = ''MODERATE''"
    | "p = ''LOW''"
    by (auto simp: priority_tiers_def)
  then show ?thesis
  proof cases
    case 1
    with assms(2) show ?thesis
      by (simp add: spec_tier_weight_def spec_tier_threshold_def minutes_def
            factor_critical round_half_even_of_int [of 0, simplified])
  next
    case 2
    define x where "x = real_of_int n * 900000000 * (900719925474099 / 4503599627370496)"
    have lhs: "of_int (n * minutes 15) * double_of (1 - double_of (spec_tier_weight p)) = x"
      by (simp add: 2 x_def spec_tier_weight_def minutes_def factor_urgent)
    have thr: "spec_tier_threshold p = 3600000000"
      by (simp add: 2 spec_tier_threshold_def hours_def)
    have rhs: "min (of_int n * of_int (minutes 15) * (1 - spec_tier_weight p))
                   (of_int 3600000000)
               = real_of_int (min (n * 180000000) 3600000000)"
      by (simp add: 2 spec_tier_weight_def minutes_def min_def)
    show ?thesis
      unfolding lhs thr rhs urgent_round [OF assms(2) x_def] ..
  next
    case 3
    define x where "x = real_of_int n * 900000000 * (1 / 2)"
    have lhs: "of_int (n * minutes 15) * double_of (1 - double_of (spec_tier_weight p)) = x"
      by (simp add: 3 x_def spec_tier_weight_def minutes_def factor_moderate)
    have thr: "spec_tier_threshold p = 10800000000"
      by (simp add: 3 spec_tier_threshold_def hours_def)
    have rhs: "min (of_int n * of_int (minutes 15) * (1 - spec_tier_weight p))
                   (of_int 10800000000)
               = real_of_int (min (n * 450000000) 10800000000)"
      by (simp add: 3 spec_tier_weight_def minutes_def min_def)
    show ?thesis
      unfolding lhs thr rhs moderate_round [OF x_def] ..
  next
    case 4
    define x where "x = real_of_int n * 900000000 * (3602879701896397 / 4503599627370496)"
    have lhs: "of_int (n * minutes 15) * double_of (1 - double_of (spec_tier_weight p)) = x"
      by (simp add: 4 x_def spec_tier_weight_def minutes_def factor_low)
    have thr: "spec_tier_threshold p = 14400000000"
      by (simp add: 4 spec_tier_threshold_def hours_def)
    have rhs: "min (of_int n * of_int (minutes 15) * (1 - spec_tier_weight p))
                   (of_int 14400000000)
               = real_of_int (min (n * 720000000) 14400000000)"
      by (simp add: 4 spec_tier_weight_def minutes_def min_def)
    show ?thesis
      unfolding lhs thr rhs low_round [OF assms(2) x_def] ..
  qed
qed

text \<open>
  Claim C4, as amended. For every priority tier \<open>p\<close> and every queue position \<open>n\<close> whose
  product with the processing time per patient is a duration that \<^verbatim>\<open>timedelta\<close> can
  hold (at most 999999999 days in magnitude), the wait that \<open>estimate_wait_time\<close>
  estimates is the minimum of two durations: \<open>n\<close> times the processing time scaled by
  the float \<^verbatim>\<open>1 - weight\<close> and rounded to a whole microsecond, and the maximal wait of
  the tier (15 minutes, 1 hour, 3 hours, 4 hours). The scaled duration is within half
  a microsecond and a relative error of \<open>2 ^ -52\<close> of \<open>n\<close> times the processing time
  times \<open>1 - weight p\<close>. So the estimate never exceeds the maximal wait of the tier;
  the function returns it formatted as a string. With the default processing time of
  15 minutes and \<open>n \<ge> 0\<close> the estimate is exactly the minimum of
  \<open>n * 15 min * (1 - weight p)\<close> and the maximal wait of the tier.
\<close>

theorem wait_estimate_capped:
  assumes "p \<in> set priority_tiers" and "timedelta_range (n * apt)"
  shows "final_wait n p apt =
           Inr (min (round_half_even
                       (of_int (n * apt) * double_of (1 - double_of (spec_tier_weight p))))
                    (spec_tier_threshold p))
         \<and> \<bar>real_of_int (round_half_even
                   (of_int (n * apt) * double_of (1 - double_of (spec_tier_weight p))))
             - of_int n * of_int apt * (1 - spec_tier_weight p)\<bar>
           \<le> 1 / 2 + \<bar>real_of_int (n * apt)\<bar> / 2 ^ 52
         \<and> (\<exists>d. final_wait n p apt = Inr d \<and> d \<le> spec_tier_threshold p
                  \<and> estimate_wait_time n p apt = Inr (format_wait_time d))
         \<and> (apt = default_processing_time \<and> 0 \<le> n \<longrightarrow>
              (\<exists>d. final_wait n p apt = Inr d
                    \<and> real_of_int d = min (of_int n * of_int (minutes 15)
                                              * (1 - spec_tier_weight p))
                                            (of_int (spec_tier_threshold p))))"
proof (intro conjI impI)
  show closed: "final_wait n p apt =
           Inr (min (round_half_even
                       (of_int (n * apt) * double_of (1 - double_of (spec_tier_weight p))))
                    (spec_tier_threshold p))"
    by (rule final_wait_closed [OF assms])
  show "\<bar>real_of_int (round_half_even
                   (of_int (n * apt) * double_of (1 - double_of (spec_tier_weight p))))
             - of_int n * of_int apt * (1 - spec_tier_weight p)\<bar>
           \<le> 1 / 2 + \<bar>real_of_int (n * apt)\<bar> / 2 ^ 52"
    using scaled_error [OF assms(1), of "n * apt"] by simp
  show "\<exists>d. final_wait n p apt = Inr d \<and> d \<le> spec_tier_threshold p
                  \<and> estimate_wait_time n p apt = Inr (format_wait_time d)"
    by (simp add: closed estimate_wait_time_def)
  show "\<exists>d. final_wait n p apt = Inr d
                    \<and> real_of_int d = min (of_int n * of_int (minutes 15)
                                              * (1 - spec_tier_weight p))
                                            (of_int (spec_tier_threshold p))"
    if "apt = default_processing_time \<and> 0 \<le> n"
  proof -
    from that have apt: "apt = minutes 15" and n: "0 \<le> n"
      by (simp_all add: default_processing_time_def)
    show ?thesis
      unfolding closed unfolding apt
      using default_exact [OF assms(1) n] by simp
  qed
qed

theorem wait_estimate_capped_witness:
  "final_wait 3 ''URGENT'' default_processing_time = Inr (minutes 9)
   \<and> final_wait 40 ''URGENT'' default_processing_time = Inr (hours 1)"
proof -
  have r3: "timedelta_range (3 * default_processing_time)"
    and r40: "timedelta_range (40 * default_processing_time)"
    by (simp_all add: timedelta_range_bounds default_processing_time_def minutes_def)
  have t: "''URGENT'' \<in> set priority_tiers"
    by (simp add: priority_tiers_def)
  from wait_estimate_capped [OF t r3]
  obtain d where "final_wait 3 ''URGENT'' default_processing_time = Inr d"
    and "real_of_int d = min (of_int 3 * of_int (minutes 15) * (1 - spec_tier_weight ''URGENT''))
                              (of_int (spec_tier_threshold ''URGENT''))"
    by auto
  moreover from wait_estimate_capped [OF t r40]
  obtain e where "final_wait 40 ''URGENT'' default_processing_time = Inr e"
    and "real_of_int e = min (of_int 40 * of_int (minutes 15) * (1 - spec_tier_weight ''URGENT''))
                              (of_int (spec_tier_threshold ''URGENT''))"
    by auto
  ultimately show ?thesis
    by (simp add: spec_tier_weight_def spec_tier_threshold_def minutes_def hours_def)
qed

text \<open>
  Claim C4 as it is stated holds for every queue position and takes the scaled
  duration as it is. At position \<open>10 ^ 11\<close> the product with 15 minutes is beyond the
  range of \<^verbatim>\<open>timedelta\<close> and the call raises \<^verbatim>\<open>OverflowError\<close>. With a processing time
  of 299.999999 seconds, position 1 and tier URGENT the call computes 60 seconds,
  where the product of the claim is 59.9999998 seconds.
\<close>

theorem wait_estimate_counterexample:
  "final_wait 100000000000 ''LOW'' default_processing_time = Inl OverflowError
   \<and> estimate_wait_time 100000000000 ''LOW'' default_processing_time = Inl OverflowError
   \<and> final_wait 1 ''URGENT'' 299999999 = Inr 60000000
   \<and> real_of_int 60000000 \<noteq> 1 * 299999999 * (1 - spec_tier_weight ''URGENT'')"
proof -
  have "round_half_even (299999999 * (900719925474099 / 4503599627370496)) = 60000000"
    by (rule round_half_even_near) simp_all
  then show ?thesis
    by (simp add: final_wait_def estimate_wait_time_def timedelta_mul_int_def
          timedelta_mul_float_def new_delta_def timedelta_range_bounds
          default_processing_time_def minutes_def hours_def getitem_def priority_weights_def
          wait_time_thresholds_def factor_urgent spec_tier_weight_def)
qed

text \<open>The formatting of the estimate on an example.\<close>

lemma format_example: "format_wait_time (minutes 9) = ''9 minutes''"
proof -
  have "double_of 540 = 540"
    by (simp add: double_of_normal [where n = 43] round_half_even_def)
  moreover have "double_of 9 = 9"
    by (simp add: double_of_normal [where n = 49] round_half_even_def)
  ultimately show ?thesis
    by (simp add: format_wait_time_def minutes_def hours_def total_seconds_def py_int_def
          str_int_def digits.simps)
qed

section \<open>Severity of a symptom text\<close>

text \<open>The loops in closed form: they visit every entry of the database once.\<close>

lemma scan_keywords_closed:
  "scan_keywords text score ks (t, m) =
     (t + score * int (length (filter (\<lambda>k. occurs_in k text) ks)),
      m + length (filter (\<lambda>k. occurs_in k text) ks))"
  unfolding scan_keywords_def
  by (induction ks arbitrary: t m) (simp_all add: algebra_simps)

lemma hits_of_level:
  "filter (\<lambda>entry. occurs_in (fst entry) text) (map (\<lambda>keyword. (keyword, sev, sc)) ks)
   = map (\<lambda>keyword. (keyword, sev, sc)) (filter (\<lambda>k. occurs_in k text) ks)"
  by (induction ks) simp_all

lemma scan_levels_closed:
  "scan_levels text levels (t, m) =
     (t + sum_list (map (\<lambda>entry. snd (snd entry))
                        (filter (\<lambda>entry. occurs_in (fst entry) text) (entries_of levels))),
      m + length (filter (\<lambda>entry. occurs_in (fst entry) text) (entries_of levels)))"
proof (induction levels arbitrary: t m)
  case Nil
  show ?case by (simp add: scan_levels_def entries_of_def)
next
  case (Cons level levels)
  obtain sev ks sc where level: "level = (sev, ks, sc)"
    by (cases level)
  have step: "scan_levels text (level # levels) (t, m)
        = scan_levels text levels (scan_keywords text sc ks (t, m))"
    by (simp add: scan_levels_def level)
  have ent: "entries_of (level # levels)
        = map (\<lambda>keyword. (keyword, sev, sc)) ks @ entries_of levels"
    by (simp add: entries_of_def level)
  show ?case
    unfolding step scan_keywords_closed Cons.IH ent
    by (simp add: hits_of_level o_def sum_list_triv algebra_simps)
qed

lemma severity_scan_hits:
  "scan_levels text severity_keywords (0, 0) =
     (sum_list (map (\<lambda>entry. snd (snd entry)) (keyword_hits text)),
      length (keyword_hits text))"
  by (simp add: scan_levels_closed keyword_hits_def symptom_database_def entries_of_def)

lemma severity_closed:
  "calculate_severity_lightweight text =
     Inr (if keyword_hits text = [] then 3
          else min (double_of
                      (of_int (sum_list (map (\<lambda>entry. snd (snd entry)) (keyword_hits text)))
                       / of_nat (length (keyword_hits text)))) 10)"
  by (simp add: calculate_severity_lightweight_def severity_scan_hits truediv_def)

text \<open>
  Claim C2, as amended. For every text, the severity is computed from the four lists of
  keywords: the score of a keyword enters the sum, and the keyword the count of the
  matches, when the keyword occurs in the text, and then once, however often it occurs
  there. The result is the average score of the keywords that occur (the quotient of
  the sum by the count, as a float), capped at 10, and 3.0 when none occurs. The call
  raises no exception.
\<close>

theorem severity_average_of_hits:
  "calculate_severity_lightweight text =
     Inr (if keyword_hits text = [] then 3
          else min (double_of
                      (of_int (sum_list (map (\<lambda>entry. snd (snd entry)) (keyword_hits text)))
                       / of_nat (length (keyword_hits text)))) 10)"
  by (rule severity_closed)

text \<open>
  Claim C2 as it is stated counts a keyword once for each of its occurrences. On the
  text below \<^verbatim>\<open>chest pain\<close> occurs twice and \<^verbatim>\<open>fever\<close> once: the source averages
  10 and 4, the per-occurrence reading averages 10, 10 and 4.
\<close>

theorem severity_per_occurrence_counterexample:
  "calculate_severity_lightweight (str ''chest pain chest pain fever'') = Inr 7
   \<and> spec_severity_per_occurrence (str ''chest pain chest pain fever'') = 8
   \<and> calculate_severity_lightweight (str ''chest pain chest pain fever'')
       \<noteq> Inr (spec_severity_per_occurrence (str ''chest pain chest pain fever''))"
proof -
  have hits: "keyword_hits (str ''chest pain chest pain fever'')
        = [(''chest pain'', ''critical'', 10), (''fever'', ''moderate'', 4)]"
    by code_simp
  have code: "calculate_severity_lightweight (str ''chest pain chest pain fever'') = Inr 7"
    by (simp add: severity_closed hits double_7)
  have spec: "spec_severity_per_occurrence (str ''chest pain chest pain fever'') = 8"
    by (simp add: spec_severity_per_occurrence_def symptom_database_def severity_keywords_def
          str_def)
  from code spec show ?thesis by simp
qed

lemma database_scores:
  "(symptom, severity, score) \<in> set symptom_database \<Longrightarrow> 0 \<le> score \<and> score \<le> 10"
  by (auto simp: symptom_database_def severity_keywords_def)

lemma hits_sum_bounds:
  "0 \<le> sum_list (map (\<lambda>entry. snd (snd entry)) (keyword_hits text))"
proof -
  have "set hits \<subseteq> set symptom_database \<Longrightarrow>
        0 \<le> sum_list (map (\<lambda>entry. snd (snd entry)) hits)"
    for hits :: "(string \<times> string \<times> int) list"
  proof (induction hits)
    case Nil
    show ?case by simp
  next
    case (Cons h hits)
    obtain k sev sc where h: "h = (k, sev, sc)" by (cases h)
    with Cons.prems have "0 \<le> sc \<and> sc \<le> 10" by (auto dest: database_scores)
    with Cons show ?case by (simp add: h)
  qed
  then show ?thesis by (simp add: keyword_hits_def)
qed

lemma severity_bounds:
  "\<exists>s. calculate_severity_lightweight text = Inr s \<and> 0 \<le> s \<and> s \<le> 10"
proof (cases "keyword_hits text = []")
  case True
  then show ?thesis by (simp add: severity_closed)
next
  case False
  let ?s = "sum_list (map (\<lambda>entry. snd (snd entry)) (keyword_hits text))"
  from hits_sum_bounds [of "text"] have "0 \<le> real_of_int ?s" by simp
  then have "0 \<le> real_of_int ?s / real (length (keyword_hits text))" by simp
  then have "0 \<le> double_of (real_of_int ?s / real (length (keyword_hits text)))"
    by (rule double_of_nonneg)
  with False show ?thesis by (simp add: severity_closed)
qed

text \<open>Rounding to two decimals keeps a score between 0 and 10.\<close>

lemma py_round_bounds:
  assumes "0 \<le> x" "x \<le> 10"
  shows "0 \<le> py_round x 2 \<and> py_round x 2 \<le> 10"
proof -
  let ?k = "round_half_even (x * 100)"
  from assms have "of_int 0 \<le> x * 100" and "x * 100 \<le> of_int 1000" by simp_all
  then have "0 \<le> ?k" and "?k \<le> 1000"
    by (simp_all only: round_half_even_ge round_half_even_le)
  then have k: "0 \<le> real_of_int ?k / 100" "real_of_int ?k / 100 \<le> of_int 10"
    by simp_all
  then have "real_of_int ?k / 100 < 2 ^ 53" by simp
  with k have "0 \<le> double_of (real_of_int ?k / 100)"
    "double_of (real_of_int ?k / 100) \<le> of_int 10"
    by (simp_all only: double_of_nonneg double_of_le_int)
  then show ?thesis by (simp add: py_round_def)
qed

section \<open>The result of \<open>analyze_symptoms\<close>\<close>

lemma py_round_3: "py_round 3 2 = 3"
  by (simp add: py_round_def round_half_even_of_int [of 300, simplified] double_3)

lemma confidence_total: "\<exists>c. calculate_confidence u text = Inr c"
  by (simp add: calculate_confidence_def Let_def truediv_def)

text \<open>The call returns, and the entries of its result are the values it has computed.\<close>

lemma analyze_symptoms_returns:
  "\<exists>r s. analyze_symptoms u list_set symptom_text = Inr r
         \<and> calculate_severity_lightweight (clean_text u symptom_text) = Inr s
         \<and> severity_score r = py_round s 2
         \<and> calculate_confidence u (clean_text u symptom_text) = Inr (confidence_score r)
         \<and> key_symptoms r = extract_key_symptoms list_set (clean_text u symptom_text)"
proof -
  obtain s where s: "calculate_severity_lightweight (clean_text u symptom_text) = Inr s"
    using severity_bounds by blast
  obtain c where c: "calculate_confidence u (clean_text u symptom_text) = Inr c"
    using confidence_total by blast
  show ?thesis
    by (simp add: analyze_symptoms_def Let_def s c)
qed

lemma clean_text_empty: "str_lower u [] = [] \<Longrightarrow> clean_text u [] = []"
  by (simp add: clean_text_def strip_def)

lemma keyword_hits_empty: "keyword_hits [] = []"
  by (simp add: keyword_hits_def symptom_database_def severity_keywords_def occurs_in_def
        str_def)

text \<open>
  Claim C6. On the empty text \<open>analyze_symptoms\<close> returns a result, without raising an
  exception, whose severity is 3.0 and whose confidence is 0.0; and on every text whose
  normal form contains no severity keyword it returns a result whose severity is 3.0.
  This holds for every content of the Unicode tables, of which only one fact is used:
  the lower case of the empty text is the empty text.
\<close>

theorem empty_text_defaults:
  assumes "str_lower u [] = []"
  shows "(\<exists>r. analyze_symptoms u list_set [] = Inr r
              \<and> severity_score r = 3 \<and> confidence_score r = 0)
         \<and> (keyword_hits (clean_text u text) = []
              \<longrightarrow> (\<exists>r. analyze_symptoms u list_set text = Inr r \<and> severity_score r = 3))"
proof -
  have sev: "\<exists>r. analyze_symptoms u list_set t = Inr r \<and> severity_score r = 3"
    if "keyword_hits (clean_text u t) = []" for t
  proof -
    from that have "calculate_severity_lightweight (clean_text u t) = Inr 3"
      by (simp add: severity_closed)
    with analyze_symptoms_returns [of u list_set t] show ?thesis
      by (auto simp: py_round_3)
  qed
  have conf: "calculate_confidence u [] = Inr 0"
    by (simp add: calculate_confidence_def Let_def py_split_def)
  have "calculate_severity_lightweight [] = Inr 3"
    by (simp add: severity_closed keyword_hits_empty)
  with analyze_symptoms_returns [of u list_set "[]"] conf
  have "\<exists>r. analyze_symptoms u list_set [] = Inr r
              \<and> severity_score r = 3 \<and> confidence_score r = 0"
    by (auto simp: clean_text_empty [OF assms] py_round_3)
  with sev [of "text"] show ?thesis by blast
qed

theorem empty_text_defaults_witness:
  "keyword_hits (clean_text latin1 (str ''chest'' @ [233] @ str ''pain'')) = []
   \<and> (\<exists>r. analyze_symptoms latin1 remdups (str ''chest'' @ [233] @ str ''pain'') = Inr r
           \<and> severity_score r = 3)
   \<and> (\<exists>r. analyze_symptoms latin1 remdups [] = Inr r
           \<and> severity_score r = 3 \<and> confidence_score r = 0)"
proof -
  have l: "str_lower latin1 [] = []"
    by (simp add: latin1_def)
  have h: "keyword_hits (clean_text latin1 (str ''chest'' @ [233] @ str ''pain'')) = []"
    by code_simp
  with empty_text_defaults [OF l, of remdups "str ''chest'' @ [233] @ str ''pain''"]
  show ?thesis by blast
qed

lemma collect_keywords_closed:
  "collect_keywords text ks found = found @ filter (\<lambda>k. occurs_in k text) ks"
  unfolding collect_keywords_def
  by (induction ks arbitrary: found) simp_all

lemma found_levels:
  "fold (\<lambda>(severity, ks, score) found. collect_keywords text ks found) levels found
   = found @ map fst (filter (\<lambda>entry. occurs_in (fst entry) text) (entries_of levels))"
proof (induction levels arbitrary: found)
  case Nil
  show ?case by (simp add: entries_of_def)
next
  case (Cons level levels)
  obtain sev ks sc where level: "level = (sev, ks, sc)"
    by (cases level)
  have ent: "entries_of (level # levels)
        = map (\<lambda>keyword. (keyword, sev, sc)) ks @ entries_of levels"
    by (simp add: entries_of_def level)
  have step: "fold (\<lambda>(severity, ks, score) found. collect_keywords text ks found)
                   (level # levels) found
        = fold (\<lambda>(severity, ks, score) found. collect_keywords text ks found)
               levels (collect_keywords text ks found)"
    by (simp add: level)
  show ?case
    unfolding step Cons.IH ent
    by (simp add: collect_keywords_closed hits_of_level o_def)
qed

lemma found_symptoms_hits: "found_symptoms text = map fst (keyword_hits text)"
  by (simp add: found_symptoms_def found_levels keyword_hits_def symptom_database_def
        entries_of_def)

text \<open>
  Claim C10. For every text, \<open>analyze_symptoms\<close> returns a result whose list
  \<open>key_symptoms\<close> has at most 5 entries, no entry twice, and each entry is a severity
  keyword that occurs in the normalised text. This holds for every content of the
  Unicode tables and for every order in which the set of the found keywords is listed.
\<close>

theorem key_symptoms_bounded:
  assumes "set_listing list_set"
  shows "\<exists>r. analyze_symptoms u list_set text = Inr r
             \<and> length (key_symptoms r) \<le> 5
             \<and> distinct (key_symptoms r)
             \<and> (\<forall>k \<in> set (key_symptoms r).
                   k \<in> fst ` set symptom_database \<and> occurs_in k (clean_text u text))"
proof -
  let ?found = "found_symptoms (clean_text u text)"
  obtain r where r: "analyze_symptoms u list_set text = Inr r"
    and ks: "key_symptoms r = take 5 (list_set ?found)"
    using analyze_symptoms_returns [of u list_set "text"]
    by (auto simp: extract_key_symptoms_def)
  from assms have d: "distinct (list_set ?found)" and s: "set (list_set ?found) = set ?found"
    by (simp_all add: set_listing_def)
  have "set (take 5 (list_set ?found)) \<subseteq> set ?found"
    using set_take_subset [of 5 "list_set ?found"] s by simp
  moreover have "set ?found
      \<subseteq> {k. k \<in> fst ` set symptom_database \<and> occurs_in k (clean_text u text)}"
    by (auto simp: found_symptoms_hits keyword_hits_def)
  ultimately have "\<forall>k \<in> set (take 5 (list_set ?found)).
               k \<in> fst ` set symptom_database \<and> occurs_in k (clean_text u text)"
    by blast
  with d r ks show ?thesis by (intro exI [of _ r]) simp
qed

theorem key_symptoms_bounded_witness:
  "(\<exists>r. analyze_symptoms latin1 remdups
           (str ''Chest pain, high fever, headache, nausea, a cough and a sore throat!'')
         = Inr r
         \<and> key_symptoms r = [''chest pain'', ''high fever'', ''fever'', ''headache'', ''nausea''])
   \<and> (\<exists>r. analyze_symptoms latin1 remdups (str ''chest'' @ [233] @ str ''pain'') = Inr r
           \<and> key_symptoms r = [])"
proof -
  let ?t1 = "str ''Chest pain, high fever, headache, nausea, a cough and a sore throat!''"
  let ?t2 = "str ''chest'' @ [233] @ str ''pain''"
  have l: "set_listing remdups" by (simp add: set_listing_def)
  have k1: "extract_key_symptoms remdups (clean_text latin1 ?t1)
        = [''chest pain'', ''high fever'', ''fever'', ''headache'', ''nausea'']"
    by code_simp
  have k2: "extract_key_symptoms remdups (clean_text latin1 ?t2) = []"
    by code_simp
  from key_symptoms_bounded [OF l, of latin1 ?t1]
  obtain r1 where r1: "analyze_symptoms latin1 remdups ?t1 = Inr r1" by blast
  from key_symptoms_bounded [OF l, of latin1 ?t2]
  obtain r2 where r2: "analyze_symptoms latin1 remdups ?t2 = Inr r2" by blast
  from analyze_symptoms_returns [of latin1 remdups ?t1] r1 k1
  have "key_symptoms r1 = [''chest pain'', ''high fever'', ''fever'', ''headache'', ''nausea'']"
    by auto
  moreover from analyze_symptoms_returns [of latin1 remdups ?t2] r2 k2
  have "key_symptoms r2 = []"
    by auto
  ultimately show ?thesis using r1 r2 by blast
qed

section \<open>Severity and confidence of an image\<close>

text \<open>The six increments of \<open>calculate_image_severity\<close> as one sum.\<close>

lemma image_severity_closed:
  "calculate_image_severity color texture shape =
     min ((if red_percentage color > 20 then 3 else 0)
          + (if color_uniformity color > 50 then 2 else 0)
          + (if texture_variance texture > 1000 then 2 else 0)
          + (if edge_density texture > 30 then 1 else 0)
          + (if irregularity_score shape > 0.7 then 2 else 0)
          + (if contour_count shape > 5 then 1 else 0)) 10"
  by (simp add: calculate_image_severity_def Let_def)

text \<open>
  Claim C5. For all extracted features, the severity of an image is the sum of exactly
  these bonuses, capped at 10: 3 if the percentage of red pixels is above 20, 2 if the
  standard deviation of the hue is above 50, 2 if the texture variance is above 1000,
  1 if the edge density is above 30, 2 if the shape irregularity is above 0.7, and 1 if
  the number of contours is above 5.
\<close>

theorem image_severity_sum:
  "calculate_image_severity color texture shape =
     min ((if red_percentage color > 20 then 3 else 0)
          + (if color_uniformity color > 50 then 2 else 0)
          + (if texture_variance texture > 1000 then 2 else 0)
          + (if edge_density texture > 30 then 1 else 0)
          + (if irregularity_score shape > 0.7 then 2 else 0)
          + (if contour_count shape > 5 then 1 else 0)) 10"
  by (rule image_severity_closed)

lemma image_severity_bounds:
  "0 \<le> calculate_image_severity color texture shape
   \<and> calculate_image_severity color texture shape \<le> 10"
  unfolding image_severity_closed by simp

text \<open>The confidence is computed from the severity of the six rules.\<close>

lemma clamp_min_max: "min 85 (max 40 x) = spec_clamp x 40 85"
  by (simp add: spec_clamp_def min_def max_def)

lemma features_of_analysis:
  "features_severity_score (analyze_image_features color texture shape)
     = calculate_image_severity color texture shape"
  "features_confidence (analyze_image_features color texture shape)
     = min 85 (max 40 (of_int (calculate_image_severity color texture shape) * 10))"
  by (simp_all add: analyze_image_features_def Let_def)

lemma example_severity:
  assumes "red_percentage color = 25" "color_uniformity color = 10"
    "texture_variance texture = 500" "edge_density texture = 10"
    "irregularity_score shape = 0.2" "contour_count shape = 2"
  shows "calculate_image_severity color texture shape = 3"
  using assms by (simp add: calculate_image_severity_def Let_def)

text \<open>
  Claim C7. The severity that an image analysis reports is the severity of the six
  rules, and its confidence is this severity times 10, clamped to the range from 40 to
  85; \<open>analyze_image\<close> returns this confidence. For the features red percentage 25, hue
  deviation 10, texture variance 500, edge density 10, irregularity 0.2 and 2
  contours, the severity is 3 (the rule of the red percentage alone fires) and the
  confidence is 40 (the floor of the clamp, applied to 30).
\<close>

theorem image_confidence_clamped:
  "features_severity_score (analyze_image_features color texture shape)
     = calculate_image_severity color texture shape
   \<and> features_confidence (analyze_image_features color texture shape)
     = spec_clamp (of_int (calculate_image_severity color texture shape) * 10) 40 85
   \<and> features_confidence (analyze_image_features color texture shape)
     = spec_clamp (of_int (features_severity_score
                             (analyze_image_features color texture shape)) * 10) 40 85
   \<and> (extract img = Inr (color, texture, shape)
       \<longrightarrow> analyze_image decode extract (Image img) image_type ''confidence_score''
           = Some (Float (spec_clamp
                            (of_int (calculate_image_severity color texture shape) * 10)
                            40 85)))
   \<and> (red_percentage color = 25 \<and> color_uniformity color = 10
        \<and> texture_variance texture = 500 \<and> edge_density texture = 10
        \<and> irregularity_score shape = 0.2 \<and> contour_count shape = 2
       \<longrightarrow> calculate_image_severity color texture shape = 3
           \<and> features_severity_score (analyze_image_features color texture shape) = 3
           \<and> features_confidence (analyze_image_features color texture shape) = 40)"
proof (intro conjI impI)
  show "features_severity_score (analyze_image_features color texture shape)
     = calculate_image_severity color texture shape"
    by (rule features_of_analysis)
  show conf: "features_confidence (analyze_image_features color texture shape)
     = spec_clamp (of_int (calculate_image_severity color texture shape) * 10) 40 85"
    by (simp only: features_of_analysis clamp_min_max)
  show "features_confidence (analyze_image_features color texture shape)
     = spec_clamp (of_int (features_severity_score
                             (analyze_image_features color texture shape)) * 10) 40 85"
    by (simp only: features_of_analysis clamp_min_max)
  show "analyze_image decode extract (Image img) image_type ''confidence_score''
           = Some (Float (spec_clamp
                            (of_int (calculate_image_severity color texture shape) * 10)
                            40 85))"
    if "extract img = Inr (color, texture, shape)"
    using that by (simp add: analyze_image_def try_block_def Let_def conf)
next
  assume a: "red_percentage color = 25 \<and> color_uniformity color = 10
        \<and> texture_variance texture = 500 \<and> edge_density texture = 10
        \<and> irregularity_score shape = 0.2 \<and> contour_count shape = 2"
  then show sev: "calculate_image_severity color texture shape = 3"
    by (simp add: example_severity)
  show "features_severity_score (analyze_image_features color texture shape) = 3"
    by (simp only: features_of_analysis sev)
  show "features_confidence (analyze_image_features color texture shape) = 40"
    by (simp add: features_of_analysis sev)
qed

theorem image_confidence_clamped_witness:
  "features_severity_score
     (analyze_image_features
        \<lparr>mean_hue = 8, mean_saturation = 120, mean_brightness = 140,
         red_percentage = 25, color_uniformity = 10\<rparr>
        \<lparr>texture_variance = 500, edge_density = 10, smoothness = 90\<rparr>
        \<lparr>contour_count = 2, largest_area = 300, circularity = 0.8,
         irregularity_score = 0.2\<rparr>) = 3
   \<and> features_confidence
     (analyze_image_features
        \<lparr>mean_hue = 8, mean_saturation = 120, mean_brightness = 140,
         red_percentage = 25, color_uniformity = 10\<rparr>
        \<lparr>texture_variance = 500, edge_density = 10, smoothness = 90\<rparr>
        \<lparr>contour_count = 2, largest_area = 300, circularity = 0.8,
         irregularity_score = 0.2\<rparr>) = 40
   \<and> features_severity_score
     (analyze_image_features
        \<lparr>mean_hue = 8, mean_saturation = 120, mean_brightness = 140,
         red_percentage = 25, color_uniformity = 60\<rparr>
        \<lparr>texture_variance = 1500, edge_density = 10, smoothness = 90\<rparr>
        \<lparr>contour_count = 2, largest_area = 300, circularity = 0.8,
         irregularity_score = 0.2\<rparr>) = 7
   \<and> features_confidence
     (analyze_image_features
        \<lparr>mean_hue = 8, mean_saturation = 120, mean_brightness = 140,
         red_percentage = 25, color_uniformity = 60\<rparr>
        \<lparr>texture_variance = 1500, edge_density = 10, smoothness = 90\<rparr>
        \<lparr>contour_count = 2, largest_area = 300, circularity = 0.8,
         irregularity_score = 0.2\<rparr>) = 70"
  using image_confidence_clamped
     [of "\<lparr>mean_hue = 8, mean_saturation = 120, mean_brightness = 140,
         red_percentage = 25, color_uniformity = 10\<rparr>"
        "\<lparr>texture_variance = 500, edge_density = 10, smoothness = 90\<rparr>"
        "\<lparr>contour_count = 2, largest_area = 300, circularity = 0.8,
         irregularity_score = 0.2\<rparr>" "\<lambda>i. Inl []" "()" "\<lambda>s. Inl []" "[]"]
    image_confidence_clamped
     [of "\<lparr>mean_hue = 8, mean_saturation = 120, mean_brightness = 140,
         red_percentage = 25, color_uniformity = 60\<rparr>"
        "\<lparr>texture_variance = 1500, edge_density = 10, smoothness = 90\<rparr>"
        "\<lparr>contour_count = 2, largest_area = 300, circularity = 0.8,
         irregularity_score = 0.2\<rparr>" "\<lambda>i. Inl []" "()" "\<lambda>s. Inl []" "[]"]
  by (simp add: spec_clamp_def calculate_image_severity_def)

section \<open>Failure of the image analysis\<close>

lemma try_block_fails:
  "processing_fails decode extract image_data msg \<Longrightarrow>
   try_block decode extract image_data image_type = Inl msg"
  by (auto simp: processing_fails_def try_block_def split: image_data.splits sum.splits)

text \<open>
  Claim C8. Whenever decoding or processing the image fails, \<open>analyze_image\<close> returns
  an error result: a dictionary with an entry \<^verbatim>\<open>error\<close> and without an entry
  \<^verbatim>\<open>analysis_results\<close>, whose flag \<^verbatim>\<open>requires_professional_review\<close> is \<^verbatim>\<open>True\<close> and
  whose recommendations are the one generic recommendation to consult a professional.
  The exception does not reach the caller: the function returns this dictionary.
\<close>

theorem analyze_image_failure:
  assumes "processing_fails decode extract image_data msg"
  shows "analyze_image decode extract image_data image_type ''error''
           = Some (Str (''Image analysis failed: '' @ msg))
         \<and> analyze_image decode extract image_data image_type ''analysis_results'' = None
         \<and> analyze_image decode extract image_data image_type ''requires_professional_review''
           = Some (Bool True)
         \<and> analyze_image decode extract image_data image_type ''recommendations''
           = Some (StrList [''Please consult healthcare professional for proper evaluation''])
         \<and> dom (analyze_image decode extract image_data image_type)
           = {''error'', ''recommendations'', ''confidence_score'',
              ''requires_professional_review''}"
  by (auto simp: analyze_image_def try_block_fails [OF assms])

theorem analyze_image_failure_witness:
  "analyze_image (\<lambda>s. Inl ''Incorrect padding'') (\<lambda>img :: unit. Inl ''unreachable'')
      (Base64 ''not base64!'') ''skin'' ''error''
     = Some (Str ''Image analysis failed: Incorrect padding'')
   \<and> analyze_image (\<lambda>s. Inl ''Incorrect padding'') (\<lambda>img :: unit. Inl ''unreachable'')
      (Base64 ''not base64!'') ''skin'' ''requires_professional_review''
     = Some (Bool True)"
  using analyze_image_failure
     [of "\<lambda>s. Inl ''Incorrect padding''" "\<lambda>img :: unit. Inl ''unreachable''"
         "Base64 ''not base64!''" "''Incorrect padding''" "''skin''"]
  by (simp add: processing_fails_def)

section \<open>Range of the severity scores\<close>

text \<open>
  Claim C9. For every input, the severity score of the symptom analyzer and the
  severity score of the image analyzer lie in the closed interval from 0 to 10. This
  holds for the scores that the two scoring functions compute and for the scores that
  the analyzers report, and the symptom analyzer always returns a score.
\<close>

theorem severity_scores_in_range:
  "(\<exists>s. calculate_severity_lightweight text = Inr s \<and> 0 \<le> s \<and> s \<le> 10)
   \<and> (\<exists>r. analyze_symptoms u list_set symptom_text = Inr r
           \<and> 0 \<le> severity_score r \<and> severity_score r \<le> 10)
   \<and> 0 \<le> calculate_image_severity color texture shape
   \<and> calculate_image_severity color texture shape \<le> 10
   \<and> 0 \<le> features_severity_score (analyze_image_features color texture shape)
   \<and> features_severity_score (analyze_image_features color texture shape) \<le> 10"
proof -
  obtain r s where r: "analyze_symptoms u list_set symptom_text = Inr r"
    and s: "calculate_severity_lightweight (clean_text u symptom_text) = Inr s"
    and rs: "severity_score r = py_round s 2"
    using analyze_symptoms_returns [of u list_set symptom_text] by blast
  from severity_bounds [of "clean_text u symptom_text"] s have "0 \<le> s" "s \<le> 10"
    by simp_all
  then have "0 \<le> severity_score r \<and> severity_score r \<le> 10"
    unfolding rs by (rule py_round_bounds)
  with r have "\<exists>r. analyze_symptoms u list_set symptom_text = Inr r
           \<and> 0 \<le> severity_score r \<and> severity_score r \<le> 10"
    by blast
  moreover have "features_severity_score (analyze_image_features color texture shape)
        = calculate_image_severity color texture shape"
    by (rule features_of_analysis)
  ultimately show ?thesis
    using severity_bounds [of "text"] image_severity_bounds [of color texture shape]
    by simp
qed

end
